theory Spec2Isabelle
  imports Main "HOL-Library.Log_Nat"
begin

section \<open>Phishing awareness testing framework: the campaign store\<close>

text \<open>
  The program is a single Python class, \<open>PhishingSimulator\<close>, whose methods run SQL
  statements against an SQLite database with three tables (campaigns, employees,
  results) and write rendered e-mails to files. The embedding below follows
  \<open>phishing_tester.py\<close> method by method:

  \<^item> a table is the list of its rows in insertion order, a row is a record with one
    field per column;
  \<^item> every method takes the database (and, where it writes files, the file system) and
    returns its outcome together with the new database;
  \<^item> an exception is a value \<open>Inl e\<close> of the sum type \<open>error + 'a\<close>;
  \<^item> \<open>with sqlite3.connect(...) as conn\<close> commits when its block ends normally and rolls
    back when the block raises, so a method whose block fails returns the database it
    was given;
  \<^item> \<open>uuid.uuid4()\<close> and \<open>datetime.now().isoformat()\<close> read the environment: the values
    they return are parameters of the model;
  \<^item> a Python \<open>str\<close> is modelled by its UTF-8 encoding (the encoding the program reads
    and writes files with), a \<open>string\<close> of bytes. The only string operations the program
    applies are concatenation and \<open>replace\<close> with ASCII patterns, which agree on code
    points and on UTF-8 bytes.
\<close>

subsection \<open>Errors and console reports\<close>

text \<open>
  The exceptions the methods raise. The Russian message texts are represented by
  constructors of \<open>message\<close>; a message that quotes another exception carries it.
  \<open>IntegrityError\<close> is the only \<open>sqlite3.Error\<close> of the model: the violated constraint
  of an \<open>INSERT\<close>. Failures of the storage medium itself are outside the model.
\<close>

datatype error =
    ValueError message
  | RuntimeError message
  | FileNotFoundError message
  | KeyError string
  | ZeroDivisionError
  | IntegrityError string
and message =
    Unknown_template string
  | Campaign_creation_failed error
  | Csv_fields_required
  | File_has_no_data
  | File_not_found
  | Csv_read_failed error
  | Add_employees_failed error
  | Campaign_not_found
  | Template_not_found string
  | Db_failed error

fun is_sqlite3_Error :: "error \<Rightarrow> bool" where
  "is_sqlite3_Error (IntegrityError c) = True"
| "is_sqlite3_Error e = False"

text \<open>What \<open>simulate_click\<close> and \<open>report_phishing\<close> print.\<close>

datatype console =
    Token_not_found string
  | Click_registered
  | Employee_not_found
  | Report_registered

subsection \<open>The template catalog\<close>

record EmailTemplate =
  tpl_name :: string
  tpl_subject :: string
  tpl_body :: string
  tpl_sender :: string
  tpl_difficulty :: string

text \<open>The subjects and bodies of \<open>_load_templates\<close>, as UTF-8 bytes.\<close>

definition password_reset_subject :: string where
  "password_reset_subject =
     [CHR 0xD0, CHR 0xA1, CHR 0xD1, CHR 0x80, CHR 0xD0, CHR 0xBE, CHR 0xD1, CHR 0x87,
     CHR 0xD0, CHR 0xBD, CHR 0xD1, CHR 0x8B, CHR 0xD0, CHR 0xB9, CHR 0x20, CHR 0xD1,
     CHR 0x81, CHR 0xD0, CHR 0xB1, CHR 0xD1, CHR 0x80, CHR 0xD0, CHR 0xBE, CHR 0xD1,
     CHR 0x81, CHR 0x20, CHR 0xD0, CHR 0xBF, CHR 0xD0, CHR 0xB0, CHR 0xD1, CHR 0x80,
     CHR 0xD0, CHR 0xBE, CHR 0xD0, CHR 0xBB, CHR 0xD1, CHR 0x8F]"

definition password_reset_body :: string where
  "password_reset_body =
     [CHR 0xD0, CHR 0xA3, CHR 0xD0, CHR 0xB2, CHR 0xD0, CHR 0xB0, CHR 0xD0, CHR 0xB6,
     CHR 0xD0, CHR 0xB0, CHR 0xD0, CHR 0xB5, CHR 0xD0, CHR 0xBC, CHR 0xD1, CHR 0x8B,
     CHR 0xD0, CHR 0xB9, CHR 0x20, CHR 0xD1, CHR 0x81, CHR 0xD0, CHR 0xBE, CHR 0xD1,
     CHR 0x82, CHR 0xD1, CHR 0x80, CHR 0xD1, CHR 0x83, CHR 0xD0, CHR 0xB4, CHR 0xD0,
     CHR 0xBD, CHR 0xD0, CHR 0xB8, CHR 0xD0, CHR 0xBA, CHR 0x2C, CHR 0x0A, CHR 0x0A,
     CHR 0xD0, CHR 0x9D, CHR 0xD0, CHR 0xB0, CHR 0xD1, CHR 0x88, CHR 0xD0, CHR 0xB0,
     CHR 0x20, CHR 0xD1, CHR 0x81, CHR 0xD0, CHR 0xB8, CHR 0xD1, CHR 0x81, CHR 0xD1,
     CHR 0x82, CHR 0xD0, CHR 0xB5, CHR 0xD0, CHR 0xBC, CHR 0xD0, CHR 0xB0, CHR 0x20,
     CHR 0xD0, CHR 0xB1, CHR 0xD0, CHR 0xB5, CHR 0xD0, CHR 0xB7, CHR 0xD0, CHR 0xBE,
     CHR 0xD0, CHR 0xBF, CHR 0xD0, CHR 0xB0, CHR 0xD1, CHR 0x81, CHR 0xD0, CHR 0xBD,
     CHR 0xD0, CHR 0xBE, CHR 0xD1, CHR 0x81, CHR 0xD1, CHR 0x82, CHR 0xD0, CHR 0xB8,
     CHR 0x20, CHR 0xD0, CHR 0xBE, CHR 0xD0, CHR 0xB1, CHR 0xD0, CHR 0xBD, CHR 0xD0,
     CHR 0xB0, CHR 0xD1, CHR 0x80, CHR 0xD1, CHR 0x83, CHR 0xD0, CHR 0xB6, CHR 0xD0,
     CHR 0xB8, CHR 0xD0, CHR 0xBB, CHR 0xD0, CHR 0xB0, CHR 0x20, CHR 0xD0, CHR 0xBF,
     CHR 0xD0, CHR 0xBE, CHR 0xD0, CHR 0xB4, CHR 0xD0, CHR 0xBE, CHR 0xD0, CHR 0xB7,
     CHR 0xD1, CHR 0x80, CHR 0xD0, CHR 0xB8, CHR 0xD1, CHR 0x82, CHR 0xD0, CHR 0xB5,
     CHR 0xD0, CHR 0xBB, CHR 0xD1, CHR 0x8C, CHR 0xD0, CHR 0xBD, CHR 0xD1, CHR 0x83,
     CHR 0xD1, CHR 0x8E, CHR 0x20, CHR 0xD0, CHR 0xB0, CHR 0xD0, CHR 0xBA, CHR 0xD1,
     CHR 0x82, CHR 0xD0, CHR 0xB8, CHR 0xD0, CHR 0xB2, CHR 0xD0, CHR 0xBD, CHR 0xD0,
     CHR 0xBE, CHR 0xD1, CHR 0x81, CHR 0xD1, CHR 0x82, CHR 0xD1, CHR 0x8C, CHR 0x2E,
     CHR 0x0A, CHR 0xD0, CHR 0x94, CHR 0xD0, CHR 0xBB, CHR 0xD1, CHR 0x8F, CHR 0x20,
     CHR 0xD0, CHR 0xB7, CHR 0xD0, CHR 0xB0, CHR 0xD1, CHR 0x89, CHR 0xD0, CHR 0xB8,
     CHR 0xD1, CHR 0x82, CHR 0xD1, CHR 0x8B, CHR 0x20, CHR 0xD0, CHR 0xB4, CHR 0xD0,
     CHR 0xB0, CHR 0xD0, CHR 0xBD, CHR 0xD0, CHR 0xBD, CHR 0xD1, CHR 0x8B, CHR 0xD1,
     CHR 0x85, CHR 0x20, CHR 0xD1, CHR 0x82, CHR 0xD1, CHR 0x80, CHR 0xD0, CHR 0xB5,
     CHR 0xD0, CHR 0xB1, CHR 0xD1, CHR 0x83, CHR 0xD0, CHR 0xB5, CHR 0xD1, CHR 0x82,
     CHR 0xD1, CHR 0x81, CHR 0xD1, CHR 0x8F, CHR 0x20, CHR 0xD0, CHR 0xBD, CHR 0xD0,
     CHR 0xB5, CHR 0xD0, CHR 0xBC, CHR 0xD0, CHR 0xB5, CHR 0xD0, CHR 0xB4, CHR 0xD0,
     CHR 0xBB, CHR 0xD0, CHR 0xB5, CHR 0xD0, CHR 0xBD, CHR 0xD0, CHR 0xBD, CHR 0xD1,
     CHR 0x8B, CHR 0xD0, CHR 0xB9, CHR 0x20, CHR 0xD1, CHR 0x81, CHR 0xD0, CHR 0xB1,
     CHR 0xD1, CHR 0x80, CHR 0xD0, CHR 0xBE, CHR 0xD1, CHR 0x81, CHR 0x20, CHR 0xD0,
     CHR 0xBF, CHR 0xD0, CHR 0xB0, CHR 0xD1, CHR 0x80, CHR 0xD0, CHR 0xBE, CHR 0xD0,
     CHR 0xBB, CHR 0xD1, CHR 0x8F, CHR 0x2E, CHR 0x0A, CHR 0x0A, CHR 0xD0, CHR 0xA1,
     CHR 0xD1, CHR 0x81, CHR 0xD1, CHR 0x8B, CHR 0xD0, CHR 0xBB, CHR 0xD0, CHR 0xBA,
     CHR 0xD0, CHR 0xB0] @ '': {link}'' @ [CHR 0x0A, CHR 0x0A, CHR 0xD0, CHR 0xA1,
     CHR 0x20, CHR 0xD1, CHR 0x83, CHR 0xD0, CHR 0xB2, CHR 0xD0, CHR 0xB0, CHR 0xD0,
     CHR 0xB6, CHR 0xD0, CHR 0xB5, CHR 0xD0, CHR 0xBD, CHR 0xD0, CHR 0xB8, CHR 0xD0,
     CHR 0xB5, CHR 0xD0, CHR 0xBC, CHR 0x2C, CHR 0x0A, CHR 0xD0, CHR 0x9E, CHR 0xD1,
     CHR 0x82, CHR 0xD0, CHR 0xB4, CHR 0xD0, CHR 0xB5, CHR 0xD0, CHR 0xBB, CHR 0x20,
     CHR 0xD0, CHR 0x98, CHR 0xD0, CHR 0x91]"

definition software_update_subject :: string where
  "software_update_subject =
     [CHR 0xD0, CHR 0x9A, CHR 0xD1, CHR 0x80, CHR 0xD0, CHR 0xB8, CHR 0xD1, CHR 0x82,
     CHR 0xD0, CHR 0xB8, CHR 0xD1, CHR 0x87, CHR 0xD0, CHR 0xB5, CHR 0xD1, CHR 0x81,
     CHR 0xD0, CHR 0xBA, CHR 0xD0, CHR 0xBE, CHR 0xD0, CHR 0xB5, CHR 0x20, CHR 0xD0,
     CHR 0xBE, CHR 0xD0, CHR 0xB1, CHR 0xD0, CHR 0xBD, CHR 0xD0, CHR 0xBE, CHR 0xD0,
     CHR 0xB2, CHR 0xD0, CHR 0xBB, CHR 0xD0, CHR 0xB5, CHR 0xD0, CHR 0xBD, CHR 0xD0,
     CHR 0xB8, CHR 0xD0, CHR 0xB5, CHR 0x20, CHR 0xD0, CHR 0x9F, CHR 0xD0, CHR 0x9E]"

definition software_update_body :: string where
  "software_update_body =
     [CHR 0xD0, CHR 0x97, CHR 0xD0, CHR 0xB4, CHR 0xD1, CHR 0x80, CHR 0xD0, CHR 0xB0,
     CHR 0xD0, CHR 0xB2, CHR 0xD1, CHR 0x81, CHR 0xD1, CHR 0x82, CHR 0xD0, CHR 0xB2,
     CHR 0xD1, CHR 0x83, CHR 0xD0, CHR 0xB9, CHR 0xD1, CHR 0x82, CHR 0xD0, CHR 0xB5,
     CHR 0x2C, CHR 0x0A, CHR 0x0A, CHR 0xD0, CHR 0xA2, CHR 0xD1, CHR 0x80, CHR 0xD0,
     CHR 0xB5, CHR 0xD0, CHR 0xB1, CHR 0xD1, CHR 0x83, CHR 0xD0, CHR 0xB5, CHR 0xD1,
     CHR 0x82, CHR 0xD1, CHR 0x81, CHR 0xD1, CHR 0x8F, CHR 0x20, CHR 0xD1, CHR 0x83,
     CHR 0xD1, CHR 0x81, CHR 0xD1, CHR 0x82, CHR 0xD0, CHR 0xB0, CHR 0xD0, CHR 0xBD,
     CHR 0xD0, CHR 0xBE, CHR 0xD0, CHR 0xB2, CHR 0xD0, CHR 0xB8, CHR 0xD1, CHR 0x82,
     CHR 0xD1, CHR 0x8C, CHR 0x20, CHR 0xD0, CHR 0xBE, CHR 0xD0, CHR 0xB1, CHR 0xD0,
     CHR 0xBD, CHR 0xD0, CHR 0xBE, CHR 0xD0, CHR 0xB2, CHR 0xD0, CHR 0xBB, CHR 0xD0,
     CHR 0xB5, CHR 0xD0, CHR 0xBD, CHR 0xD0, CHR 0xB8, CHR 0xD0, CHR 0xB5, CHR 0x20,
     CHR 0xD0, CHR 0xB1, CHR 0xD0, CHR 0xB5, CHR 0xD0, CHR 0xB7, CHR 0xD0, CHR 0xBE,
     CHR 0xD0, CHR 0xBF, CHR 0xD0, CHR 0xB0, CHR 0xD1, CHR 0x81, CHR 0xD0, CHR 0xBD,
     CHR 0xD0, CHR 0xBE, CHR 0xD1, CHR 0x81, CHR 0xD1, CHR 0x82, CHR 0xD0, CHR 0xB8,
     CHR 0x2E, CHR 0x0A, CHR 0xD0, CHR 0x9F, CHR 0xD0, CHR 0xBE, CHR 0xD0, CHR 0xB6,
     CHR 0xD0, CHR 0xB0, CHR 0xD0, CHR 0xBB, CHR 0xD1, CHR 0x83, CHR 0xD0, CHR 0xB9,
     CHR 0xD1, CHR 0x81, CHR 0xD1, CHR 0x82, CHR 0xD0, CHR 0xB0, CHR 0x2C, CHR 0x20,
     CHR 0xD0, CHR 0xBF, CHR 0xD0, CHR 0xB5, CHR 0xD1, CHR 0x80, CHR 0xD0, CHR 0xB5,
     CHR 0xD0, CHR 0xB9, CHR 0xD0, CHR 0xB4, CHR 0xD0, CHR 0xB8, CHR 0xD1, CHR 0x82,
     CHR 0xD0, CHR 0xB5, CHR 0x20, CHR 0xD0, CHR 0xBF, CHR 0xD0, CHR 0xBE, CHR 0x20,
     CHR 0xD1, CHR 0x81, CHR 0xD1, CHR 0x81, CHR 0xD1, CHR 0x8B, CHR 0xD0, CHR 0xBB,
     CHR 0xD0, CHR 0xBA, CHR 0xD0, CHR 0xB5, CHR 0x20, CHR 0xD0, CHR 0xB4, CHR 0xD0,
     CHR 0xBB, CHR 0xD1, CHR 0x8F, CHR 0x20, CHR 0xD1, CHR 0x83, CHR 0xD1, CHR 0x81,
     CHR 0xD1, CHR 0x82, CHR 0xD0, CHR 0xB0, CHR 0xD0, CHR 0xBD, CHR 0xD0, CHR 0xBE,
     CHR 0xD0, CHR 0xB2, CHR 0xD0, CHR 0xBA, CHR 0xD0, CHR 0xB8, CHR 0x3A, CHR 0x0A,
     CHR 0x0A] @ ''{link}'' @ [CHR 0x0A, CHR 0x0A, CHR 0xD0, CHR 0xA1, CHR 0x20,
     CHR 0xD1, CHR 0x83, CHR 0xD0, CHR 0xB2, CHR 0xD0, CHR 0xB0, CHR 0xD0, CHR 0xB6,
     CHR 0xD0, CHR 0xB5, CHR 0xD0, CHR 0xBD, CHR 0xD0, CHR 0xB8, CHR 0xD0, CHR 0xB5,
     CHR 0xD0, CHR 0xBC, CHR 0x2C, CHR 0x0A] @ ''IT '' @ [CHR 0xD0, CHR 0xBE,
     CHR 0xD1, CHR 0x82, CHR 0xD0, CHR 0xB4, CHR 0xD0, CHR 0xB5, CHR 0xD0, CHR 0xBB]"

definition ceo_request_subject :: string where
  "ceo_request_subject =
     [CHR 0xD0, CHR 0xA1, CHR 0xD1, CHR 0x80, CHR 0xD0, CHR 0xBE, CHR 0xD1, CHR 0x87,
     CHR 0xD0, CHR 0xBD, CHR 0xD1, CHR 0x8B, CHR 0xD0, CHR 0xB9, CHR 0x20, CHR 0xD0,
     CHR 0xB7, CHR 0xD0, CHR 0xB0, CHR 0xD0, CHR 0xBF, CHR 0xD1, CHR 0x80, CHR 0xD0,
     CHR 0xBE, CHR 0xD1, CHR 0x81, CHR 0x20, CHR 0xD0, CHR 0xBE, CHR 0xD1, CHR 0x82,
     CHR 0x20, CHR 0xD1, CHR 0x80, CHR 0xD1, CHR 0x83, CHR 0xD0, CHR 0xBA, CHR 0xD0,
     CHR 0xBE, CHR 0xD0, CHR 0xB2, CHR 0xD0, CHR 0xBE, CHR 0xD0, CHR 0xB4, CHR 0xD1,
     CHR 0x81, CHR 0xD1, CHR 0x82, CHR 0xD0, CHR 0xB2, CHR 0xD0, CHR 0xB0]"

definition ceo_request_body :: string where
  "ceo_request_body =
     [CHR 0xD0, CHR 0x94, CHR 0xD0, CHR 0xBE, CHR 0xD0, CHR 0xB1, CHR 0xD1, CHR 0x80,
     CHR 0xD1, CHR 0x8B, CHR 0xD0, CHR 0xB9, CHR 0x20, CHR 0xD0, CHR 0xB4, CHR 0xD0,
     CHR 0xB5, CHR 0xD0, CHR 0xBD, CHR 0xD1, CHR 0x8C, CHR 0x2C, CHR 0x0A, CHR 0x0A,
     CHR 0xD0, CHR 0x9F, CHR 0xD1, CHR 0x80, CHR 0xD0, CHR 0xBE, CHR 0xD1, CHR 0x88,
     CHR 0xD1, CHR 0x83, CHR 0x20, CHR 0xD0, CHR 0xB2, CHR 0xD0, CHR 0xB0, CHR 0xD1,
     CHR 0x81, CHR 0x20, CHR 0xD0, CHR 0xBE, CHR 0xD0, CHR 0xB7, CHR 0xD0, CHR 0xBD,
     CHR 0xD0, CHR 0xB0, CHR 0xD0, CHR 0xBA, CHR 0xD0, CHR 0xBE, CHR 0xD0, CHR 0xBC,
     CHR 0xD0, CHR 0xB8, CHR 0xD1, CHR 0x82, CHR 0xD1, CHR 0x8C, CHR 0xD1, CHR 0x81,
     CHR 0xD1, CHR 0x8F, CHR 0x20, CHR 0xD1, CHR 0x81, CHR 0x20, CHR 0xD0, CHR 0xB2,
     CHR 0xD0, CHR 0xB0, CHR 0xD0, CHR 0xB6, CHR 0xD0, CHR 0xBD, CHR 0xD1, CHR 0x8B,
     CHR 0xD0, CHR 0xBC, CHR 0x20, CHR 0xD0, CHR 0xB4, CHR 0xD0, CHR 0xBE, CHR 0xD0,
     CHR 0xBA, CHR 0xD1, CHR 0x83, CHR 0xD0, CHR 0xBC, CHR 0xD0, CHR 0xB5, CHR 0xD0,
     CHR 0xBD, CHR 0xD1, CHR 0x82, CHR 0xD0, CHR 0xBE, CHR 0xD0, CHR 0xBC, CHR 0x2E,
     CHR 0x0A, CHR 0xD0, CHR 0x94, CHR 0xD0, CHR 0xBE, CHR 0xD1, CHR 0x81, CHR 0xD1,
     CHR 0x82, CHR 0xD1, CHR 0x83, CHR 0xD0, CHR 0xBF, CHR 0x20, CHR 0xD0, CHR 0xBF,
     CHR 0xD0, CHR 0xBE, CHR 0x20, CHR 0xD1, CHR 0x81, CHR 0xD1, CHR 0x81, CHR 0xD1,
     CHR 0x8B, CHR 0xD0, CHR 0xBB, CHR 0xD0, CHR 0xBA, CHR 0xD0, CHR 0xB5, CHR 0x3A,
     CHR 0x0A, CHR 0x0A] @ ''{link}'' @ [CHR 0x0A, CHR 0x0A, CHR 0xD0, CHR 0xA1,
     CHR 0x20, CHR 0xD1, CHR 0x83, CHR 0xD0, CHR 0xB2, CHR 0xD0, CHR 0xB0, CHR 0xD0,
     CHR 0xB6, CHR 0xD0, CHR 0xB5, CHR 0xD0, CHR 0xBD, CHR 0xD0, CHR 0xB8, CHR 0xD0,
     CHR 0xB5, CHR 0xD0, CHR 0xBC, CHR 0x2C, CHR 0x0A, CHR 0xD0, CHR 0x93, CHR 0xD0,
     CHR 0xB5, CHR 0xD0, CHR 0xBD, CHR 0xD0, CHR 0xB5, CHR 0xD1, CHR 0x80, CHR 0xD0,
     CHR 0xB0, CHR 0xD0, CHR 0xBB, CHR 0xD1, CHR 0x8C, CHR 0xD0, CHR 0xBD, CHR 0xD1,
     CHR 0x8B, CHR 0xD0, CHR 0xB9, CHR 0x20, CHR 0xD0, CHR 0xB4, CHR 0xD0, CHR 0xB8,
     CHR 0xD1, CHR 0x80, CHR 0xD0, CHR 0xB5, CHR 0xD0, CHR 0xBA, CHR 0xD1, CHR 0x82,
     CHR 0xD0, CHR 0xBE, CHR 0xD1, CHR 0x80]"

definition hdr_to :: string where
  "hdr_to =
     [CHR 0xD0, CHR 0x9A, CHR 0xD0, CHR 0xBE, CHR 0xD0, CHR 0xBC, CHR 0xD1, CHR 0x83,
     CHR 0x3A, CHR 0x20]"

definition hdr_subject :: string where
  "hdr_subject =
     [CHR 0xD0, CHR 0xA2, CHR 0xD0, CHR 0xB5, CHR 0xD0, CHR 0xBC, CHR 0xD0, CHR 0xB0,
     CHR 0x3A, CHR 0x20]"

definition hdr_from :: string where
  "hdr_from =
     [CHR 0xD0, CHR 0x9E, CHR 0xD1, CHR 0x82, CHR 0x3A, CHR 0x20]"

definition footer_campaign :: string where
  "footer_campaign =
     [CHR 0xD0, CHR 0xA2, CHR 0xD0, CHR 0xB5, CHR 0xD1, CHR 0x81, CHR 0xD1, CHR 0x82,
     CHR 0xD0, CHR 0xBE, CHR 0xD0, CHR 0xB2, CHR 0xD0, CHR 0xBE, CHR 0xD0, CHR 0xB5,
     CHR 0x20, CHR 0xD0, CHR 0xBF, CHR 0xD0, CHR 0xB8, CHR 0xD1, CHR 0x81, CHR 0xD1,
     CHR 0x8C, CHR 0xD0, CHR 0xBC, CHR 0xD0, CHR 0xBE, CHR 0x20, CHR 0xD0, CHR 0xB4,
     CHR 0xD0, CHR 0xBB, CHR 0xD1, CHR 0x8F, CHR 0x20, CHR 0xD0, CHR 0xBA, CHR 0xD0,
     CHR 0xB0, CHR 0xD0, CHR 0xBC, CHR 0xD0, CHR 0xBF, CHR 0xD0, CHR 0xB0, CHR 0xD0,
     CHR 0xBD, CHR 0xD0, CHR 0xB8, CHR 0xD0, CHR 0xB8, CHR 0x3A, CHR 0x20]"

definition footer_token :: string where
  "footer_token =
     [CHR 0xD0, CHR 0xA2, CHR 0xD0, CHR 0xBE, CHR 0xD0, CHR 0xBA, CHR 0xD0, CHR 0xB5,
     CHR 0xD0, CHR 0xBD, CHR 0x20, CHR 0xD0, CHR 0xBE, CHR 0xD1, CHR 0x82, CHR 0xD1,
     CHR 0x81, CHR 0xD0, CHR 0xBB, CHR 0xD0, CHR 0xB5, CHR 0xD0, CHR 0xB6, CHR 0xD0,
     CHR 0xB8, CHR 0xD0, CHR 0xB2, CHR 0xD0, CHR 0xB0, CHR 0xD0, CHR 0xBD, CHR 0xD0,
     CHR 0xB8, CHR 0xD1, CHR 0x8F, CHR 0x3A, CHR 0x20]"
definition load_templates :: "string \<rightharpoonup> EmailTemplate" where
  "load_templates =
     [''password_reset'' \<mapsto>
        \<lparr>tpl_name = ''password_reset'', tpl_subject = password_reset_subject,
         tpl_body = password_reset_body, tpl_sender = ''security@company.com'',
         tpl_difficulty = ''low''\<rparr>,
      ''software_update'' \<mapsto>
        \<lparr>tpl_name = ''software_update'', tpl_subject = software_update_subject,
         tpl_body = software_update_body, tpl_sender = ''it-support@company.com'',
         tpl_difficulty = ''medium''\<rparr>,
      ''ceo_request'' \<mapsto>
        \<lparr>tpl_name = ''ceo_request'', tpl_subject = ceo_request_subject,
         tpl_body = ceo_request_body, tpl_sender = ''ceo@company.com'',
         tpl_difficulty = ''high''\<rparr>]"

subsection \<open>The database\<close>

text \<open>
  One record per table of \<open>_init_database\<close>. A column that the program can fill with
  \<open>NULL\<close> is an \<open>option\<close>: the name and department of an employee (a CSV line shorter
  than the header gives \<open>None\<close>) and the two event timestamps. The three counters are
  SQLite \<open>INTEGER\<close>s.
\<close>

record campaign =
  cmp_id :: string
  cmp_name :: string
  cmp_template :: string
  cmp_created :: string
  cmp_status :: string

record employee =
  emp_id :: string
  emp_email :: string
  emp_name :: "string option"
  emp_department :: "string option"
  emp_campaign_id :: string

record result =
  res_id :: string
  res_employee_id :: string
  res_campaign_id :: string
  res_email_sent :: int
  res_link_clicked :: int
  res_phishing_reported :: int
  res_clicked_at :: "string option"
  res_reported_at :: "string option"
  res_token :: string

record database =
  campaigns :: "campaign list"
  employees :: "employee list"
  results :: "result list"

definition empty_database :: database where
  "empty_database = \<lparr>campaigns = [], employees = [], results = []\<rparr>"

text \<open>
  \<open>INSERT INTO campaigns (id, name, template, created)\<close>: the primary key must be new;
  \<open>status\<close> takes its default.
\<close>

definition insert_campaign ::
  "string \<times> string \<times> string \<times> string \<Rightarrow> database \<Rightarrow> error + database" where
  "insert_campaign row db =
     (case row of (cid, cname, template, created) \<Rightarrow>
        if cid \<in> set (map cmp_id (campaigns db))
        then Inl (IntegrityError ''campaigns.id'')
        else Inr (db\<lparr>campaigns := campaigns db @
               [\<lparr>cmp_id = cid, cmp_name = cname, cmp_template = template,
                 cmp_created = created, cmp_status = ''active''\<rparr>]\<rparr>))"

text \<open>
  \<open>INSERT OR IGNORE INTO employees\<close>: a row that violates \<open>NOT NULL\<close> on the email, the
  primary key or \<open>UNIQUE\<close> on the email is skipped without an error.
\<close>

definition insert_or_ignore_employee ::
  "string \<times> string option \<times> string option \<times> string option \<times> string \<Rightarrow> database \<Rightarrow> database"
  where
  "insert_or_ignore_employee row db =
     (case row of (eid, email, ename, department, cid) \<Rightarrow>
        (case email of
           None \<Rightarrow> db
         | Some em \<Rightarrow>
             if eid \<in> set (map emp_id (employees db)) \<or> em \<in> set (map emp_email (employees db))
             then db
             else db\<lparr>employees := employees db @
                    [\<lparr>emp_id = eid, emp_email = em, emp_name = ename,
                      emp_department = department, emp_campaign_id = cid\<rparr>]\<rparr>))"

text \<open>
  \<open>INSERT INTO results (id, employee_id, campaign_id, token)\<close>: the primary key and the
  token must be new; the counters take their default 0 and the timestamps are
  \<open>NULL\<close>. The program never switches foreign-key enforcement on (SQLite leaves it off
  unless \<open>PRAGMA foreign_keys = ON\<close> is executed), so \<open>employee_id\<close> and \<open>campaign_id\<close>
  are stored unchecked.
\<close>

definition new_result :: "string \<Rightarrow> string \<Rightarrow> string \<Rightarrow> string \<Rightarrow> result" where
  "new_result rid eid cid token =
     \<lparr>res_id = rid, res_employee_id = eid, res_campaign_id = cid,
      res_email_sent = 0, res_link_clicked = 0, res_phishing_reported = 0,
      res_clicked_at = None, res_reported_at = None, res_token = token\<rparr>"

definition insert_result ::
  "string \<times> string \<times> string \<times> string \<Rightarrow> database \<Rightarrow> error + database" where
  "insert_result row db =
     (case row of (rid, eid, cid, token) \<Rightarrow>
        if rid \<in> set (map res_id (results db)) then Inl (IntegrityError ''results.id'')
        else if token \<in> set (map res_token (results db))
        then Inl (IntegrityError ''results.token'')
        else Inr (db\<lparr>results := results db @ [new_result rid eid cid token]\<rparr>))"

subsection \<open>create_campaign\<close>

text \<open>
  \<open>uuid4\<close> is the value \<open>str(uuid.uuid4())\<close> returns, \<open>now\<close> the value of
  \<open>datetime.now().isoformat()\<close>.
\<close>

definition create_campaign ::
  "database \<Rightarrow> string \<Rightarrow> string \<Rightarrow> string \<Rightarrow> string \<Rightarrow> (error + string) \<times> database" where
  "create_campaign db cname template uuid4 now =
     (if load_templates template = None
      then (Inl (ValueError (Unknown_template template)), db)
      else
        let campaign_id = uuid4 in
        case insert_campaign (campaign_id, cname, template, now) db of
          Inl e \<Rightarrow> (Inl (RuntimeError (Campaign_creation_failed e)), db)
        | Inr db' \<Rightarrow> (Inr campaign_id, db'))"

subsection \<open>add_employees\<close>

text \<open>
  A row of \<open>csv.DictReader\<close> is a dictionary from the column names of the header to the
  fields of the line; a line shorter than the header leaves the missing fields \<open>None\<close>.
  \<open>employees_file\<close> is what the reader yields, or \<open>None\<close> when the file does not exist.
\<close>

type_synonym csv_row = "string \<rightharpoonup> string option"

definition getitem :: "csv_row \<Rightarrow> string \<Rightarrow> error + string option" where
  "getitem row k = (case row k of None \<Rightarrow> Inl (KeyError k) | Some v \<Rightarrow> Inr v)"

definition required_fields :: "string list" where
  "required_fields = [''email'', ''name'', ''department'']"

abbreviation valid_row :: "csv_row \<Rightarrow> bool" where
  "valid_row row \<equiv> list_all (\<lambda>key. row key \<noteq> None) required_fields"

text \<open>The reading loop: it stops at the first row that lacks a required key.\<close>

fun read_rows :: "csv_row list \<Rightarrow> csv_row list \<Rightarrow> error + csv_row list" where
  "read_rows [] emps = Inr emps"
| "read_rows (row # reader) emps =
     (if \<not> valid_row row
      then Inl (ValueError Csv_fields_required)
      else read_rows reader (emps @ [row]))"

text \<open>
  The first \<open>try\<close> block. \<open>FileNotFoundError\<close> is raised again as such; every other
  exception, the two \<open>ValueError\<close>s included, leaves as a \<open>RuntimeError\<close>.
\<close>

definition load_employees :: "csv_row list option \<Rightarrow> error + csv_row list" where
  "load_employees employees_file =
     (case employees_file of
        None \<Rightarrow> Inl (FileNotFoundError File_not_found)
      | Some reader \<Rightarrow>
          (case read_rows reader [] of
             Inl e \<Rightarrow> Inl (RuntimeError (Csv_read_failed e))
           | Inr emps \<Rightarrow>
               if emps = []
               then Inl (RuntimeError (Csv_read_failed (ValueError File_has_no_data)))
               else Inr emps))"

text \<open>
  The insertion loop. Each round draws three identifiers, in the order \<open>emp_id\<close>,
  \<open>token\<close>, \<open>result_id\<close>; \<open>uuid4 n\<close> is the n-th value \<open>uuid.uuid4()\<close> returns from
  now on.
\<close>

fun add_rows :: "string \<Rightarrow> (nat \<Rightarrow> string) \<Rightarrow> csv_row list \<Rightarrow> database \<Rightarrow> error + database" where
  "add_rows campaign_id uuid4 [] db = Inr db"
| "add_rows campaign_id uuid4 (emp # emps) db =
     (let eid = uuid4 0; token = uuid4 1 in
      case getitem emp ''email'' of Inl e \<Rightarrow> Inl e | Inr email \<Rightarrow>
      case getitem emp ''name'' of Inl e \<Rightarrow> Inl e | Inr ename \<Rightarrow>
      case getitem emp ''department'' of Inl e \<Rightarrow> Inl e | Inr department \<Rightarrow>
      let db1 = insert_or_ignore_employee (eid, email, ename, department, campaign_id) db;
          result_id = uuid4 2 in
      case insert_result (result_id, eid, campaign_id, token) db1 of
        Inl e \<Rightarrow> Inl e
      | Inr db2 \<Rightarrow> add_rows campaign_id (\<lambda>n. uuid4 (n + 3)) emps db2)"

text \<open>
  The method returns nothing and prints the number of rows read; the model returns
  that number. Its second block turns an \<open>sqlite3.Error\<close> into a \<open>RuntimeError\<close> and
  lets any other exception pass; either way the transaction is rolled back.
\<close>

definition add_employees ::
  "database \<Rightarrow> string \<Rightarrow> csv_row list option \<Rightarrow> (nat \<Rightarrow> string) \<Rightarrow> (error + nat) \<times> database" where
  "add_employees db campaign_id employees_file uuid4 =
     (case load_employees employees_file of
        Inl e \<Rightarrow> (Inl e, db)
      | Inr emps \<Rightarrow>
          (case add_rows campaign_id uuid4 emps db of
             Inl e \<Rightarrow>
               (if is_sqlite3_Error e then Inl (RuntimeError (Add_employees_failed e)) else Inl e,
                db)
           | Inr db' \<Rightarrow> (Inr (length emps), db')))"

subsection \<open>generate_emails\<close>

text \<open>
  Python's \<open>str.replace(old, new)\<close>: the occurrences of \<open>old\<close> are found from the left and
  do not overlap; an empty \<open>old\<close> matches before every character and at the end.
\<close>

function replace_str :: "string \<Rightarrow> string \<Rightarrow> string \<Rightarrow> string" where
  "replace_str old new [] = (if old = [] then new else [])"
| "replace_str old new (c # cs) =
     (if old = [] then new @ c # replace_str old new cs
      else if take (length old) (c # cs) = old
      then new @ replace_str old new (drop (length old) (c # cs))
      else c # replace_str old new cs)"
  by pat_completeness auto
termination
  by (relation "measure (\<lambda>(old, new, s). length s)") auto

text \<open>Whether \<open>old\<close> occurs in a string, at any position.\<close>

fun occurs_in :: "string \<Rightarrow> string \<Rightarrow> bool" where
  "occurs_in old [] = (old = [])"
| "occurs_in old (c # cs) = (take (length old) (c # cs) = old \<or> occurs_in old cs)"

text \<open>
  The join of the second query: the (email, name, token) of every pair of an employee
  of the campaign and a result row that carries the employee's id. SQL leaves the order
  of the rows open; the model takes the employees in table order and, for each, the
  results in table order.
\<close>

definition join_employees_results :: "database \<Rightarrow> string \<Rightarrow> (employee \<times> result) list" where
  "join_employees_results db campaign_id =
     concat (map (\<lambda>e. map (Pair e) (filter (\<lambda>r. emp_id e = res_employee_id r) (results db)))
                 (filter (\<lambda>e. emp_campaign_id e = campaign_id) (employees db)))"

definition select_email_name_token ::
  "database \<Rightarrow> string \<Rightarrow> (string \<times> string option \<times> string) list" where
  "select_email_name_token db campaign_id =
     map (\<lambda>(e, r). (emp_email e, emp_name e, res_token r)) (join_employees_results db campaign_id)"

text \<open>\<open>UPDATE results SET email_sent = 1 WHERE token = ?\<close>\<close>

definition update_email_sent :: "string \<Rightarrow> database \<Rightarrow> database" where
  "update_email_sent token db =
     db\<lparr>results := map (\<lambda>r. if res_token r = token then r\<lparr>res_email_sent := 1\<rparr> else r) (results db)\<rparr>"

text \<open>
  The file system is the journal of the files written, oldest first: \<open>open(path, 'w')\<close>
  creates or truncates the file, so the content of a path is that of the last entry
  for it. Writes are taken to succeed.
\<close>

type_synonym filesystem = "(string \<times> string) list"

definition file_content :: "filesystem \<Rightarrow> string \<Rightarrow> string option" where
  "file_content fs path = map_of (rev fs) path"

definition tracking_link :: "string \<Rightarrow> string" where
  "tracking_link token = ''http://localhost:8080/track/'' @ token"

definition email_filename :: "string \<Rightarrow> string \<Rightarrow> string" where
  "email_filename output_dir email = output_dir @ ''/'' @ replace_str ''@'' ''_'' email @ ''.txt''"

text \<open>The seven \<open>f.write\<close> calls, in order.\<close>

definition email_document :: "EmailTemplate \<Rightarrow> string \<Rightarrow> string \<Rightarrow> string \<Rightarrow> string" where
  "email_document template campaign_name email token =
     (let email_content = replace_str ''{link}'' (tracking_link token) (tpl_body template) in
      hdr_to @ email @ [CHR 0x0A] @
      hdr_subject @ tpl_subject template @ [CHR 0x0A] @
      hdr_from @ tpl_sender template @ [CHR 0x0A] @
      [CHR 0x0A] @ email_content @ [CHR 0x0A] @
      [CHR 0x0A] @ ''---'' @ [CHR 0x0A] @
      footer_campaign @ campaign_name @ [CHR 0x0A] @
      footer_token @ token @ [CHR 0x0A])"

text \<open>The rendering loop: write the file, then mark the result row of the token.\<close>

fun generate_loop ::
  "EmailTemplate \<Rightarrow> string \<Rightarrow> string \<Rightarrow> (string \<times> string option \<times> string) list \<Rightarrow>
   database \<times> filesystem \<Rightarrow> database \<times> filesystem" where
  "generate_loop template campaign_name output_dir [] (db, fs) = (db, fs)"
| "generate_loop template campaign_name output_dir ((email, ename, token) # emps) (db, fs) =
     (let fs' = fs @ [(email_filename output_dir email,
                       email_document template campaign_name email token)];
          db' = update_email_sent token db
      in generate_loop template campaign_name output_dir emps (db', fs'))"

text \<open>
  The method prints the number of e-mails generated; the model returns it.
  \<open>fetchone\<close> gives the first campaign row with the id, a dataclass instance is always
  true, so \<open>not template\<close> holds exactly when \<open>templates.get\<close> returned \<open>None\<close>.
\<close>

definition generate_emails ::
  "database \<Rightarrow> filesystem \<Rightarrow> string \<Rightarrow> string \<Rightarrow> (error + nat) \<times> database \<times> filesystem" where
  "generate_emails db fs campaign_id output_dir =
     (case find (\<lambda>c. cmp_id c = campaign_id) (campaigns db) of
        None \<Rightarrow> (Inl (ValueError Campaign_not_found), db, fs)
      | Some c \<Rightarrow>
          let campaign_name = cmp_name c; template_name = cmp_template c in
          (case load_templates template_name of
             None \<Rightarrow> (Inl (ValueError (Template_not_found template_name)), db, fs)
           | Some template \<Rightarrow>
               let emps = select_email_name_token db campaign_id in
               (case generate_loop template campaign_name output_dir emps (db, fs) of
                  (db', fs') \<Rightarrow> (Inr (length emps), db', fs'))))"

subsection \<open>simulate_click and report_phishing\<close>

text \<open>
  \<open>UPDATE results SET link_clicked = 1, clicked_at = ? WHERE token = ?\<close>;
  \<open>cursor.rowcount\<close> is the number of rows the statement matched.
\<close>

definition simulate_click :: "database \<Rightarrow> string \<Rightarrow> string \<Rightarrow> console \<times> database" where
  "simulate_click db token now =
     (let rowcount = length (filter (\<lambda>r. res_token r = token) (results db));
          db' = db\<lparr>results :=
                  map (\<lambda>r. if res_token r = token
                            then r\<lparr>res_link_clicked := 1, res_clicked_at := Some now\<rparr> else r)
                      (results db)\<rparr>
      in (if rowcount = 0 then Token_not_found token else Click_registered, db'))"

definition report_phishing :: "database \<Rightarrow> string \<Rightarrow> string \<Rightarrow> string \<Rightarrow> console \<times> database" where
  "report_phishing db email campaign_id now =
     (let ids = map emp_id (filter (\<lambda>e. emp_email e = email \<and> emp_campaign_id e = campaign_id)
                                   (employees db));
          rowcount = length (filter (\<lambda>r. res_employee_id r \<in> set ids) (results db));
          db' = db\<lparr>results :=
                  map (\<lambda>r. if res_employee_id r \<in> set ids
                            then r\<lparr>res_phishing_reported := 1, res_reported_at := Some now\<rparr> else r)
                      (results db)\<rparr>
      in (if rowcount = 0 then Employee_not_found else Report_registered, db'))"


subsection \<open>Python numbers\<close>

text \<open>
  A Python \<open>float\<close> is an IEEE 754 double; the model keeps its exact value as a
  rational. Every operation the program applies is correctly rounded: it returns the
  double nearest to the exact result, ties going to the even significand.
  \<open>round_double\<close> is that rounding for 53 bits of significand and an unbounded
  exponent. (The quotients and products of \<open>get_stats\<close> lie between \<open>1 / total\<close> and
  \<open>100 * clicked\<close>, far inside the exponent range of a double for any table SQLite can
  hold, so neither overflow nor subnormal numbers arise.)
\<close>

definition round_half_even :: "rat \<Rightarrow> int" where
  "round_half_even x =
     (let f = \<lfloor>x\<rfloor>; d = x - of_int f in
      if d < 1 / 2 then f else if 1 / 2 < d then f + 1 else if even f then f else f + 1)"

text \<open>The exponent \<open>e\<close> with \<open>2 ^ (e - 1) \<le> \<bar>x\<bar> < 2 ^ e\<close>, for \<open>x \<noteq> 0\<close>.\<close>

definition binade :: "rat \<Rightarrow> int" where
  "binade x =
     (case quotient_of \<bar>x\<bar> of (p, q) \<Rightarrow>
        let d = bitlen p - bitlen q in if \<bar>x\<bar> < 2 powi d then d else d + 1)"

definition round_double :: "rat \<Rightarrow> rat" where
  "round_double x =
     (if x = 0 then 0
      else let s = 53 - binade x in of_int (round_half_even (x * 2 powi s)) / 2 powi s)"

text \<open>\<open>a / b\<close> on two Python \<open>int\<close>s: the correctly rounded quotient.\<close>

definition py_truediv :: "int \<Rightarrow> int \<Rightarrow> error + rat" where
  "py_truediv a b = (if b = 0 then Inl ZeroDivisionError else Inr (round_double (of_int a / of_int b)))"

text \<open>\<open>x * n\<close> on a \<open>float\<close> and an \<open>int\<close> that converts exactly.\<close>

definition float_mul :: "rat \<Rightarrow> int \<Rightarrow> rat" where
  "float_mul x n = round_double (x * of_int n)"

text \<open>
  \<open>round(x, ndigits)\<close> on a \<open>float\<close>: the exact value of \<open>x\<close> is rounded to \<open>ndigits\<close>
  decimals, ties to even, and the decimal is converted back to the nearest double.
\<close>

definition py_round :: "rat \<Rightarrow> nat \<Rightarrow> rat" where
  "py_round x ndigits =
     round_double (of_int (round_half_even (x * 10 ^ ndigits)) / 10 ^ ndigits)"

datatype number = PyInt int | PyFloat rat

subsection \<open>get_stats\<close>

text \<open>
  SQL \<open>SUM\<close> over no rows is \<open>NULL\<close>, which \<open>fetchone\<close> returns as \<open>None\<close>; \<open>x or 0\<close>
  replaces \<open>None\<close> (and 0) by 0.
\<close>

definition sql_sum :: "int list \<Rightarrow> int option" where
  "sql_sum xs = (if xs = [] then None else Some (sum_list xs))"

definition or0 :: "int option \<Rightarrow> int" where
  "or0 v = (case v of None \<Rightarrow> 0 | Some n \<Rightarrow> n)"

record dept_stat =
  ds_department :: "string option"
  ds_total :: int
  ds_clicked :: int
  ds_reported :: int

record stats =
  total_employees :: int
  emails_sent :: int
  links_clicked :: int
  phishing_reported :: int
  click_rate :: number
  report_rate :: number
  department_stats :: "dept_stat list"

text \<open>
  The second query: the join of \<open>generate_emails\<close>, grouped by the department of the
  employee (\<open>NULL\<close> departments form one group). SQL leaves the order of the groups
  open.
\<close>

definition select_department_stats ::
  "database \<Rightarrow> string \<Rightarrow> (string option \<times> int \<times> int option \<times> int option) list" where
  "select_department_stats db campaign_id =
     (let joined = join_employees_results db campaign_id in
      map (\<lambda>dept.
             let grp = filter (\<lambda>(e, r). emp_department e = dept) joined in
             (dept, int (length grp),
              sql_sum (map (\<lambda>(e, r). res_link_clicked r) grp),
              sql_sum (map (\<lambda>(e, r). res_phishing_reported r) grp)))
          (remdups (map (\<lambda>(e, r). emp_department e) joined)))"

text \<open>\<open>round(part / total * 100, 2) if total > 0 else 0\<close>\<close>

definition rate :: "int \<Rightarrow> int \<Rightarrow> error + number" where
  "rate part total_rows =
     (if total_rows > 0
      then (case py_truediv part total_rows of
              Inl e \<Rightarrow> Inl e
            | Inr q \<Rightarrow> Inr (PyFloat (py_round (float_mul q 100) 2)))
      else Inr (PyInt 0))"

definition get_stats :: "database \<Rightarrow> string \<Rightarrow> error + stats" where
  "get_stats db campaign_id =
     (let rows = filter (\<lambda>r. res_campaign_id r = campaign_id) (results db);
          total_rows = or0 (Some (int (length rows)));
          sent = or0 (sql_sum (map res_email_sent rows));
          clicked = or0 (sql_sum (map res_link_clicked rows));
          reported = or0 (sql_sum (map res_phishing_reported rows));
          dept_stats = select_department_stats db campaign_id
      in
      case rate clicked total_rows of
        Inl e \<Rightarrow> Inl e
      | Inr crate \<Rightarrow>
          (case rate reported total_rows of
             Inl e \<Rightarrow> Inl e
           | Inr rrate \<Rightarrow>
               Inr \<lparr>total_employees = total_rows, emails_sent = sent, links_clicked = clicked,
                    phishing_reported = reported, click_rate = crate, report_rate = rrate,
                    department_stats =
                      map (\<lambda>(dept, dept_total, dept_clicked, dept_reported).
                             \<lparr>ds_department = dept, ds_total = dept_total,
                              ds_clicked = or0 dept_clicked, ds_reported = or0 dept_reported\<rparr>)
                          dept_stats\<rparr>))"

subsection \<open>Schema constraints and fresh identifiers\<close>

text \<open>
  The \<open>PRIMARY KEY\<close> and \<open>UNIQUE\<close> constraints of \<open>_init_database\<close>, as a predicate on
  the database.
\<close>

definition unique_keys :: "database \<Rightarrow> bool" where
  "unique_keys db \<longleftrightarrow>
     distinct (map cmp_id (campaigns db)) \<and>
     distinct (map emp_id (employees db)) \<and>
     distinct (map emp_email (employees db)) \<and>
     distinct (map res_id (results db)) \<and>
     distinct (map res_token (results db))"

text \<open>
  Every identifier stored in the employee and result tables, and what it means for the
  first \<open>n\<close> values of \<open>uuid.uuid4()\<close> to be fresh: different from one another and from
  every stored identifier.
\<close>

definition store_ids :: "database \<Rightarrow> string list" where
  "store_ids db =
     map emp_id (employees db) @ map res_id (results db) @
     map res_employee_id (results db) @ map res_token (results db)"

definition fresh_uuids :: "(nat \<Rightarrow> string) \<Rightarrow> nat \<Rightarrow> database \<Rightarrow> bool" where
  "fresh_uuids uuid4 n db \<longleftrightarrow>
     distinct (map uuid4 [0..<n]) \<and> list_all (\<lambda>i. uuid4 i \<notin> set (store_ids db)) [0..<n]"

text \<open>Every employee row is carried by exactly one result row.\<close>

definition one_result_per_employee :: "database \<Rightarrow> bool" where
  "one_result_per_employee db \<longleftrightarrow>
     list_all (\<lambda>e. length (filter (\<lambda>r. emp_id e = res_employee_id r) (results db)) = 1)
              (employees db)"

subsection \<open>Example inputs\<close>

definition example_uuid4 :: "nat \<Rightarrow> string" where
  "example_uuid4 n = ''uuid-'' @ replicate n (CHR ''i'')"

definition example_row :: "string \<Rightarrow> string \<Rightarrow> string \<Rightarrow> csv_row" where
  "example_row email ename department =
     [''email'' \<mapsto> Some email, ''name'' \<mapsto> Some ename, ''department'' \<mapsto> Some department]"

text \<open>
  The scenario of the specification: campaign "Q1" with the template
  \<open>password_reset\<close>, and three employees enrolled from one file.
\<close>

definition example_rows :: "csv_row list" where
  "example_rows =
     [example_row ''alice@x.com'' ''Alice'' ''Eng'',
      example_row ''bob@x.com'' ''Bob'' ''Eng'',
      example_row ''carol@x.com'' ''Carol'' ''Sales'']"

definition example_db :: database where
  "example_db =
     snd (add_employees
            (snd (create_campaign empty_database ''Q1'' ''password_reset'' ''camp-1''
                    ''2024-01-01T00:00:00''))
            ''camp-1'' (Some example_rows) example_uuid4)"

text \<open>A second file for the same campaign: one new address twice, one enrolled address.\<close>

definition example_dup_rows :: "csv_row list" where
  "example_dup_rows =
     [example_row ''dave@x.com'' ''Dave'' ''Ops'',
      example_row ''dave@x.com'' ''Dave'' ''Ops'',
      example_row ''alice@x.com'' ''Alice'' ''Eng'']"

definition example_reenrolled_db :: database where
  "example_reenrolled_db =
     snd (add_employees example_db ''camp-1'' (Some example_dup_rows)
            (\<lambda>n. example_uuid4 (n + 9)))"

text \<open>
  The scenario continued: the e-mails are rendered, the first employee clicks, the
  second reports.
\<close>

definition example_scenario_db :: database where
  "example_scenario_db =
     snd (report_phishing
            (snd (simulate_click
                    (fst (snd (generate_emails example_db [] ''camp-1'' ''emails'')))
                    ''uuid-i'' ''2024-01-02T09:00:00''))
            ''bob@x.com'' ''camp-1'' ''2024-01-02T10:00:00'')"

section \<open>Properties\<close>

subsection \<open>create_campaign\<close>

lemma dom_load_templates:
  "dom load_templates = {''password_reset'', ''software_update'', ''ceo_request''}"
  by (auto simp: load_templates_def split: if_splits)

text \<open>
  Claim C7. With a template name that is not a key of the catalog, \<open>create_campaign\<close>
  raises the "unknown template" \<open>ValueError\<close> and leaves the database as it was. With a
  key of the catalog and a freshly generated identifier, it appends exactly one campaign
  row that carries the identifier, the given name and template, the current timestamp
  and the default status, and returns the identifier. (Should \<open>uuid4\<close> repeat a stored
  identifier, the primary key rejects the row and nothing is written, so an identifier
  that is returned is never one issued before.)
\<close>

theorem create_campaign_spec:
  "(load_templates template = None \<longrightarrow>
      create_campaign db cname template uuid4 now =
        (Inl (ValueError (Unknown_template template)), db)) \<and>
   (load_templates template \<noteq> None \<and> uuid4 \<notin> set (map cmp_id (campaigns db)) \<longrightarrow>
      create_campaign db cname template uuid4 now =
        (Inr uuid4,
         db\<lparr>campaigns := campaigns db @
              [\<lparr>cmp_id = uuid4, cmp_name = cname, cmp_template = template,
                cmp_created = now, cmp_status = ''active''\<rparr>]\<rparr>)) \<and>
   (load_templates template \<noteq> None \<and> uuid4 \<in> set (map cmp_id (campaigns db)) \<longrightarrow>
      create_campaign db cname template uuid4 now =
        (Inl (RuntimeError (Campaign_creation_failed (IntegrityError ''campaigns.id''))), db))"
  by (simp add: create_campaign_def insert_campaign_def)

theorem create_campaign_spec_witness:
  "load_templates ''no_such_template'' = None \<and>
   create_campaign empty_database ''Q1'' ''no_such_template'' ''id-1'' ''2024-01-01T00:00:00'' =
     (Inl (ValueError (Unknown_template ''no_such_template'')), empty_database) \<and>
   load_templates ''password_reset'' \<noteq> None \<and>
   ''id-1'' \<notin> set (map cmp_id (campaigns empty_database)) \<and>
   create_campaign empty_database ''Q1'' ''password_reset'' ''id-1'' ''2024-01-01T00:00:00'' =
     (Inr ''id-1'',
      \<lparr>campaigns = [\<lparr>cmp_id = ''id-1'', cmp_name = ''Q1'', cmp_template = ''password_reset'',
                      cmp_created = ''2024-01-01T00:00:00'', cmp_status = ''active''\<rparr>],
       employees = [], results = []\<rparr>)"
  using create_campaign_spec [of "''no_such_template''" empty_database "''Q1''" "''id-1''" "''2024-01-01T00:00:00''"]
    create_campaign_spec [of "''password_reset''" empty_database "''Q1''" "''id-1''" "''2024-01-01T00:00:00''"]
  by (simp add: load_templates_def empty_database_def)

subsection \<open>simulate_click\<close>

lemma map_unchanged: "(\<And>x. x \<in> set xs \<Longrightarrow> f x = x) \<Longrightarrow> map f xs = xs"
  by (induction xs) auto

text \<open>
  Claim C6. A token that no result row carries makes \<open>simulate_click\<close> report "token not
  found" and return the database unchanged. A token that a result row carries makes it
  report the click, set \<open>link_clicked\<close> to 1 and \<open>clicked_at\<close> to the current timestamp
  in the rows with that token, and change nothing else. A second call on the same token
  behaves like a single call made at the later time: the flag stays 1 and the timestamp
  is the later one.
\<close>

theorem simulate_click_spec:
  "(token \<notin> set (map res_token (results db)) \<longrightarrow>
      simulate_click db token now = (Token_not_found token, db)) \<and>
   (token \<in> set (map res_token (results db)) \<longrightarrow>
      fst (simulate_click db token now) = Click_registered \<and>
      campaigns (snd (simulate_click db token now)) = campaigns db \<and>
      employees (snd (simulate_click db token now)) = employees db \<and>
      results (snd (simulate_click db token now)) =
        map (\<lambda>r. if res_token r = token
                  then r\<lparr>res_link_clicked := 1, res_clicked_at := Some now\<rparr> else r)
            (results db)) \<and>
   simulate_click (snd (simulate_click db token now)) token now' = simulate_click db token now'"
proof (intro conjI impI)
  assume nf: "token \<notin> set (map res_token (results db))"
  then have "filter (\<lambda>r. res_token r = token) (results db) = []"
    by (auto simp: filter_empty_conv)
  moreover from nf have "map (\<lambda>r. if res_token r = token
                  then r\<lparr>res_link_clicked := 1, res_clicked_at := Some now\<rparr> else r)
            (results db) = results db"
    by (intro map_unchanged) auto
  ultimately show "simulate_click db token now = (Token_not_found token, db)"
    by (simp add: simulate_click_def)
next
  assume f: "token \<in> set (map res_token (results db))"
  then have "filter (\<lambda>r. res_token r = token) (results db) \<noteq> []"
    by (auto simp: filter_empty_conv)
  then show "fst (simulate_click db token now) = Click_registered"
    by (simp add: simulate_click_def Let_def)
next
  show "simulate_click (snd (simulate_click db token now)) token now' = simulate_click db token now'"
    by (simp add: simulate_click_def Let_def filter_map comp_def if_distrib cong: if_cong)
qed (simp_all add: simulate_click_def Let_def)

lemma example_db_value:
  "example_db =
     \<lparr>campaigns = [\<lparr>cmp_id = ''camp-1'', cmp_name = ''Q1'', cmp_template = ''password_reset'',
                     cmp_created = ''2024-01-01T00:00:00'', cmp_status = ''active''\<rparr>],
      employees =
        [\<lparr>emp_id = ''uuid-'', emp_email = ''alice@x.com'', emp_name = Some ''Alice'',
          emp_department = Some ''Eng'', emp_campaign_id = ''camp-1''\<rparr>,
         \<lparr>emp_id = ''uuid-iii'', emp_email = ''bob@x.com'', emp_name = Some ''Bob'',
          emp_department = Some ''Eng'', emp_campaign_id = ''camp-1''\<rparr>,
         \<lparr>emp_id = ''uuid-iiiiii'', emp_email = ''carol@x.com'', emp_name = Some ''Carol'',
          emp_department = Some ''Sales'', emp_campaign_id = ''camp-1''\<rparr>],
      results =
        [new_result ''uuid-ii'' ''uuid-'' ''camp-1'' ''uuid-i'',
         new_result ''uuid-iiiii'' ''uuid-iii'' ''camp-1'' ''uuid-iiii'',
         new_result ''uuid-iiiiiiii'' ''uuid-iiiiii'' ''camp-1'' ''uuid-iiiiiii'']\<rparr>"
  by (simp add: example_db_def example_rows_def example_row_def example_uuid4_def
      add_employees_def load_employees_def required_fields_def create_campaign_def
      insert_campaign_def load_templates_def empty_database_def getitem_def
      insert_or_ignore_employee_def insert_result_def new_result_def Let_def eval_nat_numeral)

theorem simulate_click_spec_witness:
  "''nope'' \<notin> set (map res_token (results example_db)) \<and>
   simulate_click example_db ''nope'' ''t1'' = (Token_not_found ''nope'', example_db) \<and>
   ''uuid-i'' \<in> set (map res_token (results example_db)) \<and>
   fst (simulate_click example_db ''uuid-i'' ''t1'') = Click_registered \<and>
   map res_link_clicked (results (snd (simulate_click example_db ''uuid-i'' ''t1''))) = [1, 0, 0] \<and>
   map res_clicked_at (results (snd (simulate_click example_db ''uuid-i'' ''t1''))) =
     [Some ''t1'', None, None]"
  using simulate_click_spec [of "''nope''" example_db "''t1''" "''t2''"]
    simulate_click_spec [of "''uuid-i''" example_db "''t1''" "''t2''"]
  by (simp add: example_db_value new_result_def)

subsection \<open>add_employees\<close>

lemma read_rows_eq:
  "read_rows reader acc =
     (if list_all (\<lambda>row. list_all (\<lambda>key. row key \<noteq> None) required_fields) reader
      then Inr (acc @ reader) else Inl (ValueError Csv_fields_required))"
  by (induction reader arbitrary: acc) auto

lemma load_employees_Some:
  "load_employees (Some reader) =
     (if \<not> list_all (\<lambda>row. list_all (\<lambda>key. row key \<noteq> None) required_fields) reader
      then Inl (RuntimeError (Csv_read_failed (ValueError Csv_fields_required)))
      else if reader = [] then Inl (RuntimeError (Csv_read_failed (ValueError File_has_no_data)))
      else Inr reader)"
  by (simp add: load_employees_def read_rows_eq)





lemma fresh_uuids_iff:
  "fresh_uuids uuid4 n db \<longleftrightarrow>
     inj_on uuid4 {..<n} \<and> (\<forall>i<n. uuid4 i \<notin> set (store_ids db))"
  by (auto simp: fresh_uuids_def distinct_map list_all_iff atLeast_upt [symmetric] lessThan_atLeast0)

lemma add_rows_Cons:
  assumes "valid_row emp"
  shows "add_rows cid u (emp # emps) db =
     (case insert_result (u 2, u 0, cid, u 1)
             (insert_or_ignore_employee
                (u 0, the (emp ''email''), the (emp ''name''), the (emp ''department''), cid) db) of
        Inl e \<Rightarrow> Inl e
      | Inr db2 \<Rightarrow> add_rows cid (\<lambda>n. u (n + 3)) emps db2)"
  using assms by (auto simp: required_fields_def getitem_def Let_def)

lemma results_insert_or_ignore [simp]:
  "results (insert_or_ignore_employee row db) = results db"
  "campaigns (insert_or_ignore_employee row db) = campaigns db"
  by (auto simp: insert_or_ignore_employee_def split: prod.splits option.splits)

lemma employees_insert_or_ignore:
  "employees (insert_or_ignore_employee (eid, email, ename, dept, cid) db) =
     (case email of
        None \<Rightarrow> employees db
      | Some em \<Rightarrow>
          if eid \<in> set (map emp_id (employees db)) \<or> em \<in> set (map emp_email (employees db))
          then employees db
          else employees db @ [\<lparr>emp_id = eid, emp_email = em, emp_name = ename,
                      emp_department = dept, emp_campaign_id = cid\<rparr>])"
  by (auto simp: insert_or_ignore_employee_def split: option.splits)

lemma insert_result_fresh:
  assumes "rid \<notin> set (map res_id (results db))" "token \<notin> set (map res_token (results db))"
  shows "insert_result (rid, eid, cid, token) db =
           Inr (db\<lparr>results := results db @ [new_result rid eid cid token]\<rparr>)"
  using assms by (simp add: insert_result_def)

text \<open>One round of the loop under fresh identifiers.\<close>

lemma step_fresh:
  assumes "fresh_uuids u (3 + n) db"
  shows "\<exists>db2. insert_result (u 2, u 0, cid, u 1)
             (insert_or_ignore_employee (u 0, email, ename, dept, cid) db) = Inr db2 \<and>
           campaigns db2 = campaigns db \<and>
           employees db2 = employees (insert_or_ignore_employee (u 0, email, ename, dept, cid) db) \<and>
           results db2 = results db @ [new_result (u 2) (u 0) cid (u 1)] \<and>
           fresh_uuids (\<lambda>i. u (i + 3)) n db2"
proof -
  let ?db1 = "insert_or_ignore_employee (u 0, email, ename, dept, cid) db"
  from assms have inj: "inj_on u {..<3 + n}" and out: "\<And>i. i < 3 + n \<Longrightarrow> u i \<notin> set (store_ids db)"
    by (auto simp: fresh_uuids_iff)
  have "u 2 \<notin> set (map res_id (results ?db1))" "u 1 \<notin> set (map res_token (results ?db1))"
    using out [of 2] out [of 1] by (auto simp: store_ids_def)
  then have ins: "insert_result (u 2, u 0, cid, u 1) ?db1 =
       Inr (?db1\<lparr>results := results ?db1 @ [new_result (u 2) (u 0) cid (u 1)]\<rparr>)"
    by (rule insert_result_fresh)
  let ?db2 = "?db1\<lparr>results := results ?db1 @ [new_result (u 2) (u 0) cid (u 1)]\<rparr>"
  have ids: "set (store_ids ?db2) \<subseteq> set (store_ids db) \<union> {u 0, u 1, u 2}"
    by (auto simp: store_ids_def employees_insert_or_ignore new_result_def split: option.splits if_splits)
  have "inj_on (\<lambda>i. u (i + 3)) {..<n}"
  proof (rule inj_onI)
    fix x y assume "x \<in> {..<n}" "y \<in> {..<n}" "u (x + 3) = u (y + 3)"
    with inj_onD [OF inj, of "x + 3" "y + 3"] show "x = y" by simp
  qed
  moreover have "u (i + 3) \<notin> set (store_ids ?db2)" if "i < n" for i
  proof -
    have "u (i + 3) \<notin> set (store_ids db)" using out [of "i + 3"] that by simp
    moreover have "u (i + 3) \<noteq> u 0" "u (i + 3) \<noteq> u 1" "u (i + 3) \<noteq> u 2"
      using inj_onD [OF inj, of "i + 3" 0] inj_onD [OF inj, of "i + 3" 1]
        inj_onD [OF inj, of "i + 3" 2] that by auto
    ultimately show ?thesis using ids by auto
  qed
  ultimately have "fresh_uuids (\<lambda>i. u (i + 3)) n ?db2"
    by (simp add: fresh_uuids_iff)
  with ins show ?thesis by auto
qed

lemma map_upt_shift3:
  "map f [0..<Suc k] = f 0 # map (\<lambda>i. f (Suc i)) [0..<k]"
  by (simp add: map_upt_Suc del: upt_Suc)

lemma add_rows_fresh:
  assumes "list_all (\<lambda>row. valid_row row) emps" "fresh_uuids u (3 * length emps) db"
  shows "\<exists>db'. add_rows cid u emps db = Inr db' \<and>
           campaigns db' = campaigns db \<and>
           results db' = results db @
             map (\<lambda>i. new_result (u (3 * i + 2)) (u (3 * i)) cid (u (3 * i + 1))) [0..<length emps]"
  using assms
proof (induction emps arbitrary: u db)
  case Nil
  then show ?case by simp
next
  case (Cons emp emps)
  from Cons.prems have v: "valid_row emp" and vs: "list_all (\<lambda>row. valid_row row) emps"
    and fr: "fresh_uuids u (3 + 3 * length emps) db"
    by (simp_all add: algebra_simps)
  from step_fresh [OF fr, of cid "the (emp ''email'')" "the (emp ''name'')" "the (emp ''department'')"]
  obtain db2 where s: "insert_result (u 2, u 0, cid, u 1)
             (insert_or_ignore_employee (u 0, the (emp ''email''), the (emp ''name''), the (emp ''department''), cid) db) = Inr db2"
    and c2: "campaigns db2 = campaigns db"
    and r2: "results db2 = results db @ [new_result (u 2) (u 0) cid (u 1)]"
    and f2: "fresh_uuids (\<lambda>i. u (i + 3)) (3 * length emps) db2"
    by blast
  from Cons.IH [OF vs f2] obtain db' where
    a: "add_rows cid (\<lambda>n. u (n + 3)) emps db2 = Inr db'" and c: "campaigns db' = campaigns db2"
    and r: "results db' = results db2 @
             map (\<lambda>i. new_result (u (3 * i + 2 + 3)) (u (3 * i + 3)) cid (u (3 * i + 1 + 3))) [0..<length emps]"
    by blast
  have "add_rows cid u (emp # emps) db = Inr db'"
    unfolding add_rows_Cons [OF v] s using a by simp
  moreover have "results db' = results db @
             map (\<lambda>i. new_result (u (3 * i + 2)) (u (3 * i)) cid (u (3 * i + 1))) [0..<length (emp # emps)]"
    using r r2 by (simp add: map_upt_shift3 algebra_simps numeral_2_eq_2 del: upt_Suc)
  ultimately show ?case using c c2 by auto
qed


lemma step_unique_keys:
  assumes "fresh_uuids u (3 + n) db" "unique_keys db"
    and "employees db2 = employees (insert_or_ignore_employee (u 0, email, ename, dept, cid) db)"
    and "campaigns db2 = campaigns db"
    and "results db2 = results db @ [new_result (u 2) (u 0) cid (u 1)]"
  shows "unique_keys db2"
proof -
  from assms(1) have out: "\<And>i. i < 3 + n \<Longrightarrow> u i \<notin> set (store_ids db)"
    by (auto simp: fresh_uuids_iff)
  have "u 2 \<notin> set (map res_id (results db))" "u 1 \<notin> set (map res_token (results db))"
    using out [of 2] out [of 1] by (auto simp: store_ids_def)
  then show ?thesis
    using assms(2-5)
    by (auto simp: unique_keys_def employees_insert_or_ignore new_result_def split: option.splits)
qed

lemma step_one_result:
  assumes "fresh_uuids u (3 + n) db" "one_result_per_employee db"
    and "employees db2 = employees (insert_or_ignore_employee (u 0, email, ename, dept, cid) db)"
    and "results db2 = results db @ [new_result (u 2) (u 0) cid (u 1)]"
  shows "one_result_per_employee db2"
proof -
  from assms(1) have "u 0 \<notin> set (store_ids db)"
    by (auto simp: fresh_uuids_iff)
  then have a: "\<And>e. e \<in> set (employees db) \<Longrightarrow> emp_id e \<noteq> u 0"
    and b: "filter (\<lambda>r. u 0 = res_employee_id r) (results db) = []"
    by (force simp: store_ids_def filter_empty_conv)+
  show ?thesis
    using assms(2-4) a b
    by (auto simp: one_result_per_employee_def employees_insert_or_ignore new_result_def
        list_all_iff split: option.splits)
qed

lemma step_emails:
  assumes "fresh_uuids u (3 + n) db"
    and "employees db2 = employees (insert_or_ignore_employee (u 0, email, ename, dept, cid) db)"
  shows "set (map emp_email (employees db2)) = set (map emp_email (employees db)) \<union> set_option email"
proof -
  from assms(1) have "u 0 \<notin> set (store_ids db)"
    by (auto simp: fresh_uuids_iff)
  then have "u 0 \<notin> set (map emp_id (employees db))"
    by (auto simp: store_ids_def)
  then show ?thesis
    using assms(2) by (auto simp: employees_insert_or_ignore split: option.splits)
qed

lemma add_rows_fresh_employees:
  assumes "list_all (\<lambda>row. valid_row row) emps" "fresh_uuids u (3 * length emps) db"
    and "add_rows cid u emps db = Inr db'"
  shows "(unique_keys db \<longrightarrow> unique_keys db') \<and>
         (one_result_per_employee db \<longrightarrow> one_result_per_employee db') \<and>
         set (map emp_email (employees db')) =
           set (map emp_email (employees db)) \<union> {em. \<exists>row \<in> set emps. row ''email'' = Some (Some em)}"
  using assms
proof (induction emps arbitrary: u db)
  case Nil
  then show ?case by simp
next
  case (Cons emp emps)
  from Cons.prems have v: "valid_row emp" and vs: "list_all (\<lambda>row. valid_row row) emps"
    and fr: "fresh_uuids u (3 + 3 * length emps) db"
    by (simp_all add: algebra_simps)
  let ?email = "the (emp ''email'')"
  from step_fresh [OF fr, of cid ?email "the (emp ''name'')" "the (emp ''department'')"]
  obtain db2 where s: "insert_result (u 2, u 0, cid, u 1)
             (insert_or_ignore_employee (u 0, ?email, the (emp ''name''), the (emp ''department''), cid) db) = Inr db2"
    and c2: "campaigns db2 = campaigns db"
    and e2: "employees db2 = employees (insert_or_ignore_employee (u 0, ?email, the (emp ''name''), the (emp ''department''), cid) db)"
    and r2: "results db2 = results db @ [new_result (u 2) (u 0) cid (u 1)]"
    and f2: "fresh_uuids (\<lambda>i. u (i + 3)) (3 * length emps) db2"
    by blast
  from Cons.prems(3) have a: "add_rows cid (\<lambda>n. u (n + 3)) emps db2 = Inr db'"
    unfolding add_rows_Cons [OF v] s by simp
  note IH = Cons.IH [OF vs f2 a]
  from v have "emp ''email'' \<noteq> None" by (simp add: required_fields_def)
  then have em: "set_option ?email = {em. emp ''email'' = Some (Some em)}"
    by (cases "emp ''email''"; cases "the (emp ''email'')") auto
  have "set (map emp_email (employees db')) =
           set (map emp_email (employees db)) \<union> {em. \<exists>row \<in> set (emp # emps). row ''email'' = Some (Some em)}"
    using IH step_emails [OF fr e2] em by auto
  moreover have "unique_keys db \<longrightarrow> unique_keys db'"
    using IH step_unique_keys [OF fr _ e2 c2 r2] by blast
  moreover have "one_result_per_employee db \<longrightarrow> one_result_per_employee db'"
    using IH step_one_result [OF fr _ e2 r2] by blast
  ultimately show ?case by blast
qed


lemma distinct_filter_one:
  "distinct (map f xs) \<Longrightarrow> y \<in> set (map f xs) \<Longrightarrow> length (filter (\<lambda>x. f x = y) xs) = 1"
proof (induction xs)
  case Nil
  then show ?case by simp
next
  case (Cons a xs)
  show ?case
  proof (cases "f a = y")
    case True
    with Cons.prems have "y \<notin> f ` set xs" by auto
    then have "\<forall>x \<in> set xs. f x \<noteq> y" by blast
    then have "filter (\<lambda>x. f x = y) xs = []" by (simp add: filter_empty_conv)
    with True show ?thesis by simp
  next
    case False
    with Cons show ?thesis by auto
  qed
qed

text \<open>
  Claim C2. When the identifiers drawn are fresh, enrolling N records that carry the
  required fields succeeds, reports N and appends exactly N result rows of the campaign,
  one per record, whether or not the e-mail address of the record was enrolled before;
  the employee table keeps its keys unique and holds exactly one row for the address of
  each record. So the same address enrolled twice gives one employee row and two result
  rows.
\<close>

theorem add_employees_counts:
  assumes "reader \<noteq> []"
    and "list_all (\<lambda>row. list_all (\<lambda>key. row key \<noteq> None) required_fields) reader"
    and "fresh_uuids uuid4 (3 * length reader) db"
    and "unique_keys db"
  shows "\<exists>db'. add_employees db campaign_id (Some reader) uuid4 = (Inr (length reader), db') \<and>
           results db' = results db @
             map (\<lambda>i. new_result (uuid4 (3 * i + 2)) (uuid4 (3 * i)) campaign_id (uuid4 (3 * i + 1)))
                 [0..<length reader] \<and>
           length (filter (\<lambda>r. res_campaign_id r = campaign_id) (results db')) =
             length (filter (\<lambda>r. res_campaign_id r = campaign_id) (results db)) + length reader \<and>
           unique_keys db' \<and>
           (\<forall>row \<in> set reader. \<forall>em. row ''email'' = Some (Some em) \<longrightarrow>
              length (filter (\<lambda>e. emp_email e = em) (employees db')) = 1)"
proof -
  from add_rows_fresh [OF assms(2,3), of campaign_id] obtain db' where
    a: "add_rows campaign_id uuid4 reader db = Inr db'"
    and r: "results db' = results db @
             map (\<lambda>i. new_result (uuid4 (3 * i + 2)) (uuid4 (3 * i)) campaign_id (uuid4 (3 * i + 1)))
                 [0..<length reader]"
    by blast
  from add_rows_fresh_employees [OF assms(2,3) a] assms(4)
  have uk: "unique_keys db'"
    and em: "set (map emp_email (employees db')) =
           set (map emp_email (employees db)) \<union> {em. \<exists>row \<in> set reader. row ''email'' = Some (Some em)}"
    by blast+
  have "add_employees db campaign_id (Some reader) uuid4 = (Inr (length reader), db')"
    using assms(1,2) a by (simp add: add_employees_def load_employees_Some)
  moreover have "length (filter (\<lambda>r. res_campaign_id r = campaign_id) (results db')) =
             length (filter (\<lambda>r. res_campaign_id r = campaign_id) (results db)) + length reader"
    by (simp add: r filter_map comp_def new_result_def)
  moreover have "length (filter (\<lambda>e. emp_email e = em) (employees db')) = 1"
    if "row \<in> set reader" "row ''email'' = Some (Some em)" for row em
  proof -
    from that em have "em \<in> set (map emp_email (employees db'))" by blast
    moreover from uk have "distinct (map emp_email (employees db'))"
      by (simp add: unique_keys_def)
    ultimately show ?thesis by (rule distinct_filter_one [rotated])
  qed
  ultimately show ?thesis using r uk by blast
qed

lemma example_db_reenrolled:
  "add_employees example_db ''camp-1'' (Some example_dup_rows) (\<lambda>n. example_uuid4 (n + 9)) =
     (Inr 3,
      example_db
        \<lparr>employees := employees example_db @
           [\<lparr>emp_id = ''uuid-iiiiiiiii'', emp_email = ''dave@x.com'', emp_name = Some ''Dave'',
             emp_department = Some ''Ops'', emp_campaign_id = ''camp-1''\<rparr>],
         results := results example_db @
           [new_result ''uuid-iiiiiiiiiii'' ''uuid-iiiiiiiii'' ''camp-1'' ''uuid-iiiiiiiiii'',
            new_result ''uuid-iiiiiiiiiiiiii'' ''uuid-iiiiiiiiiiii'' ''camp-1'' ''uuid-iiiiiiiiiiiii'',
            new_result ''uuid-iiiiiiiiiiiiiiiii'' ''uuid-iiiiiiiiiiiiiii'' ''camp-1''
              ''uuid-iiiiiiiiiiiiiiii'']\<rparr>)"
  by (simp add: example_db_value example_dup_rows_def example_row_def example_uuid4_def
      add_employees_def load_employees_def required_fields_def getitem_def
      insert_or_ignore_employee_def insert_result_def new_result_def Let_def eval_nat_numeral)

lemma example_fresh: "fresh_uuids (\<lambda>n. example_uuid4 (n + 9)) 9 example_db"
  by (simp add: fresh_uuids_def example_db_value store_ids_def new_result_def example_uuid4_def
      eval_nat_numeral)

theorem add_employees_counts_witness:
  "example_dup_rows \<noteq> [] \<and>
   list_all (\<lambda>row. list_all (\<lambda>key. row key \<noteq> None) required_fields) example_dup_rows \<and>
   fresh_uuids (\<lambda>n. example_uuid4 (n + 9)) (3 * length example_dup_rows) example_db \<and>
   unique_keys example_db \<and>
   length (filter (\<lambda>r. res_campaign_id r = ''camp-1'') (results example_db)) = 3 \<and>
   (\<exists>db'. add_employees example_db ''camp-1'' (Some example_dup_rows) (\<lambda>n. example_uuid4 (n + 9)) = (Inr 3, db') \<and>
      length (filter (\<lambda>r. res_campaign_id r = ''camp-1'') (results db')) = 6 \<and>
      length (filter (\<lambda>e. emp_email e = ''dave@x.com'') (employees db')) = 1 \<and>
      length (filter (\<lambda>e. emp_email e = ''alice@x.com'') (employees db')) = 1)"
proof -
  have h1: "example_dup_rows \<noteq> []" by (simp add: example_dup_rows_def)
  have h2: "list_all (\<lambda>row. list_all (\<lambda>key. row key \<noteq> None) required_fields) example_dup_rows"
    by (simp add: example_dup_rows_def example_row_def required_fields_def)
  have h3: "fresh_uuids (\<lambda>n. example_uuid4 (n + 9)) (3 * length example_dup_rows) example_db"
    using example_fresh by (simp add: example_dup_rows_def)
  have h4: "unique_keys example_db"
    by (simp add: unique_keys_def example_db_value new_result_def)
  have h5: "length (filter (\<lambda>r. res_campaign_id r = ''camp-1'') (results example_db)) = 3"
    by (simp add: example_db_value new_result_def)
  have r1: "example_row ''dave@x.com'' ''Dave'' ''Ops'' \<in> set example_dup_rows"
    and r2: "example_row ''alice@x.com'' ''Alice'' ''Eng'' \<in> set example_dup_rows"
    by (simp_all add: example_dup_rows_def)
  have e1: "example_row ''dave@x.com'' ''Dave'' ''Ops'' ''email'' = Some (Some ''dave@x.com'')"
    and e2: "example_row ''alice@x.com'' ''Alice'' ''Eng'' ''email'' = Some (Some ''alice@x.com'')"
    by (simp_all add: example_row_def)
  from add_employees_counts [OF h1 h2 h3 h4, of "''camp-1''"] h5 r1 r2 e1 e2
  have "\<exists>db'. add_employees example_db ''camp-1'' (Some example_dup_rows) (\<lambda>n. example_uuid4 (n + 9)) = (Inr 3, db') \<and>
      length (filter (\<lambda>r. res_campaign_id r = ''camp-1'') (results db')) = 6 \<and>
      length (filter (\<lambda>e. emp_email e = ''dave@x.com'') (employees db')) = 1 \<and>
      length (filter (\<lambda>e. emp_email e = ''alice@x.com'') (employees db')) = 1"
    by (auto simp: example_dup_rows_def)
  with h1 h2 h3 h4 h5 show ?thesis by blast
qed


text \<open>
  Claim C1 fails on the code. In the run below \<open>dave@x.com\<close> is enrolled twice and
  \<open>alice@x.com\<close> a second time: the result rows of the two repeated records carry the
  identifiers drawn for employee rows that \<open>INSERT OR IGNORE\<close> skipped, which are the
  ids of no employee row.
\<close>

theorem add_employees_dangling_result:
  "map res_employee_id
     (results (snd (add_employees example_db ''camp-1'' (Some example_dup_rows)
                      (\<lambda>n. example_uuid4 (n + 9))))) =
     [''uuid-'', ''uuid-iii'', ''uuid-iiiiii'', ''uuid-iiiiiiiii'', ''uuid-iiiiiiiiiiii'',
      ''uuid-iiiiiiiiiiiiiii''] \<and>
   map emp_id
     (employees (snd (add_employees example_db ''camp-1'' (Some example_dup_rows)
                        (\<lambda>n. example_uuid4 (n + 9))))) =
     [''uuid-'', ''uuid-iii'', ''uuid-iiiiii'', ''uuid-iiiiiiiii'']"
  unfolding example_db_reenrolled by (simp add: example_db_value new_result_def)

subsection \<open>generate_emails\<close>

text \<open>
  What \<open>replace\<close> computes: a string without an occurrence of \<open>old\<close> is returned as
  it is, and the leftmost occurrence is replaced before the rest of the string is
  treated. Each body of the catalog holds \<open>{link}\<close> exactly once.
\<close>

lemma replace_str_no_occurrence:
  "\<not> occurs_in old s \<Longrightarrow> replace_str old new s = s"
  by (induction s) auto

lemma replace_str_at_occurrence:
  assumes "old \<noteq> []"
  shows "replace_str old new (old @ b) = new @ replace_str old new b"
proof -
  from assms obtain c cs where "old = c # cs" by (cases old) auto
  then show ?thesis by simp
qed

lemma replace_str_first_occurrence:
  assumes "old \<noteq> []" "\<not> occurs_in old (a @ butlast old)"
  shows "replace_str old new (a @ old @ b) = a @ new @ replace_str old new b"
  using assms(2)
proof (induction a)
  case Nil
  then show ?case using replace_str_at_occurrence [OF assms(1)] by simp
next
  case (Cons x a)
  have len: "length old \<le> length ((x # a) @ butlast old)"
    using assms(1) by simp
  have "take (length old) ((x # a) @ old @ b) = take (length old) ((x # a) @ butlast old)"
  proof -
    have "(x # a) @ old @ b = ((x # a) @ butlast old) @ (last old # b)"
      using assms(1) by simp
    then show ?thesis using len by (metis append_Nil2 diff_is_0_eq take_0 take_append)
  qed
  moreover from Cons.prems have "take (length old) ((x # a) @ butlast old) \<noteq> old"
    and "\<not> occurs_in old (a @ butlast old)"
    by simp_all
  ultimately show ?case
    using assms(1) Cons.IH by simp
qed

lemma catalog_bodies_link:
  "replace_str ''{link}'' link password_reset_body =
     take 276 password_reset_body @ link @ drop 282 password_reset_body"
  "replace_str ''{link}'' link software_update_body =
     take 201 software_update_body @ link @ drop 207 software_update_body"
  "replace_str ''{link}'' link ceo_request_body =
     take 138 ceo_request_body @ link @ drop 144 ceo_request_body"
  by (simp_all add: password_reset_body_def software_update_body_def ceo_request_body_def)


lemma generate_loop_eq:
  "generate_loop template cname out emps (db, fs) =
     (db\<lparr>results := map (\<lambda>r. if res_token r \<in> set (map (\<lambda>(email, ename, token). token) emps)
                                then r\<lparr>res_email_sent := 1\<rparr> else r) (results db)\<rparr>,
      fs @ map (\<lambda>(email, ename, token).
            (email_filename out email, email_document template cname email token)) emps)"
proof (induction emps arbitrary: db fs)
  case Nil
  then show ?case by (simp add: map_unchanged)
next
  case (Cons t emps)
  obtain email ename token where t: "t = (email, ename, token)" by (cases t)
  show ?case
    unfolding t
    by (simp add: Cons.IH update_email_sent_def Let_def comp_def)
qed


lemma generate_emails_eq:
  assumes "find (\<lambda>c. cmp_id c = campaign_id) (campaigns db) = Some c"
    and "load_templates (cmp_template c) = Some template"
  shows "generate_emails db fs campaign_id output_dir =
     (Inr (length (select_email_name_token db campaign_id)),
      db\<lparr>results :=
           map (\<lambda>r. if res_token r \<in> set (map (\<lambda>(email, ename, token). token)
                                                (select_email_name_token db campaign_id))
                     then r\<lparr>res_email_sent := 1\<rparr> else r) (results db)\<rparr>,
      fs @ map (\<lambda>(email, ename, token).
                  (email_filename output_dir email,
                   email_document template (cmp_name c) email token))
               (select_email_name_token db campaign_id))"
  using assms by (simp add: generate_emails_def generate_loop_eq Let_def)


lemma in_set_mapI: "x \<in> set xs \<Longrightarrow> f x \<in> set (map f xs)"
  by simp



lemma example_triples:
  "select_email_name_token example_db ''camp-1'' =
     [(''alice@x.com'', Some ''Alice'', ''uuid-i''),
      (''bob@x.com'', Some ''Bob'', ''uuid-iiii''),
      (''carol@x.com'', Some ''Carol'', ''uuid-iiiiiii'')]"
  by (simp add: select_email_name_token_def join_employees_results_def example_db_value
      new_result_def)


text \<open>
  When the fetched addresses give different file names, each file holds, after the
  call, the document of its row.
\<close>

lemma generate_emails_file_content:
  assumes "find (\<lambda>c. cmp_id c = campaign_id) (campaigns db) = Some c"
    and "load_templates (cmp_template c) = Some template"
    and "distinct (map (\<lambda>(email, ename, token). email_filename output_dir email)
                       (select_email_name_token db campaign_id))"
    and "(email, ename, token) \<in> set (select_email_name_token db campaign_id)"
  shows "file_content (snd (snd (generate_emails db fs campaign_id output_dir)))
           (email_filename output_dir email) =
         Some (email_document template (cmp_name c) email token)"
proof -
  let ?f = "\<lambda>(email, ename, token).
              (email_filename output_dir email, email_document template (cmp_name c) email token)"
  let ?docs = "map ?f (select_email_name_token db campaign_id)"
  have fst: "map fst ?docs =
      map (\<lambda>(email, ename, token). email_filename output_dir email)
          (select_email_name_token db campaign_id)"
    by (simp add: comp_def case_prod_unfold)
  have d: "distinct (map fst (rev ?docs))"
    using assms(3) unfolding fst [symmetric] by (simp add: rev_map [symmetric])
  have "(email_filename output_dir email, email_document template (cmp_name c) email token)
          \<in> set (rev ?docs)"
    using in_set_mapI [OF assms(4), of ?f] by simp
  with d have "map_of (rev ?docs) (email_filename output_dir email) =
      Some (email_document template (cmp_name c) email token)"
    by (simp only: map_of_eq_Some_iff)
  then show ?thesis
    unfolding generate_emails_eq [OF assms(1,2)]
    by (simp add: file_content_def)
qed

lemma generate_emails_results:
  assumes "generate_emails db fs campaign_id output_dir = (out, db', fs')"
  shows "(db' = db \<and> fs' = fs) \<or>
         (results db' =
            map (\<lambda>r. if res_token r \<in> set (map (\<lambda>(email, ename, token). token)
                                                (select_email_name_token db campaign_id))
                      then r\<lparr>res_email_sent := 1\<rparr> else r) (results db) \<and>
          length fs' = length fs + length (select_email_name_token db campaign_id))"
  using assms
  by (auto simp: generate_emails_def generate_loop_eq Let_def split: option.splits)

lemma orphan_token_not_fetched:
  assumes "distinct (map res_token (results db))"
    and "r \<in> set (results db)"
    and "\<forall>e \<in> set (employees db). emp_campaign_id e = campaign_id \<longrightarrow> emp_id e \<noteq> res_employee_id r"
  shows "res_token r \<notin> set (map (\<lambda>(email, ename, token). token)
                                 (select_email_name_token db campaign_id))"
proof
  assume "res_token r \<in> set (map (\<lambda>(email, ename, token). token)
                                 (select_email_name_token db campaign_id))"
  then obtain e r2 where e: "e \<in> set (employees db)" "emp_campaign_id e = campaign_id"
    and r2: "r2 \<in> set (results db)" "emp_id e = res_employee_id r2" "res_token r2 = res_token r"
    by (auto simp: select_email_name_token_def join_employees_results_def)
  from assms(1,2) r2(1,3) have "r2 = r"
    by (meson distinct_map inj_onD)
  with e r2(2) assms(3) show False by auto
qed

subsection \<open>get_stats\<close>

lemma get_stats_fields:
  "\<exists>crate rrate.
     get_stats db campaign_id =
       Inr \<lparr>total_employees = int (length (filter (\<lambda>r. res_campaign_id r = campaign_id) (results db))),
            emails_sent = sum_list (map res_email_sent (filter (\<lambda>r. res_campaign_id r = campaign_id) (results db))),
            links_clicked = sum_list (map res_link_clicked (filter (\<lambda>r. res_campaign_id r = campaign_id) (results db))),
            phishing_reported = sum_list (map res_phishing_reported (filter (\<lambda>r. res_campaign_id r = campaign_id) (results db))),
            click_rate = crate, report_rate = rrate,
            department_stats =
              map (\<lambda>(dept, dept_total, dept_clicked, dept_reported).
                     \<lparr>ds_department = dept, ds_total = dept_total,
                      ds_clicked = or0 dept_clicked, ds_reported = or0 dept_reported\<rparr>)
                  (select_department_stats db campaign_id)\<rparr>"
proof -
  have s: "or0 (sql_sum xs) = sum_list xs" for xs
    by (simp add: or0_def sql_sum_def)
  have r: "\<exists>x. rate p t = Inr x" for p t
    by (simp add: rate_def py_truediv_def)
  obtain c where c: "rate (sum_list (map res_link_clicked (filter (\<lambda>r. res_campaign_id r = campaign_id) (results db))))
      (int (length (filter (\<lambda>r. res_campaign_id r = campaign_id) (results db)))) = Inr c"
    using r by blast
  obtain d where d: "rate (sum_list (map res_phishing_reported (filter (\<lambda>r. res_campaign_id r = campaign_id) (results db))))
      (int (length (filter (\<lambda>r. res_campaign_id r = campaign_id) (results db)))) = Inr d"
    using r by blast
  have t: "or0 (Some n) = n" for n
    by (simp add: or0_def)
  show ?thesis
    by (simp add: get_stats_def Let_def s t c d)
qed

subsection \<open>Result rows without an employee\<close>

lemma generate_emails_written:
  assumes "generate_emails db fs campaign_id output_dir = (out, db', fs')"
  shows "(db' = db \<and> fs' = fs) \<or>
         (\<exists>(c :: campaign) (template :: EmailTemplate).
            results db' =
              map (\<lambda>r. if res_token r \<in> set (map (\<lambda>(email, ename, token). token)
                                                  (select_email_name_token db campaign_id))
                        then r\<lparr>res_email_sent := 1\<rparr> else r) (results db) \<and>
            fs' = fs @ map (\<lambda>(email, ename, token).
                  (email_filename output_dir email,
                   email_document template (cmp_name c) email token))
               (select_email_name_token db campaign_id))"
proof (cases "find (\<lambda>c. cmp_id c = campaign_id) (campaigns db)")
  case None
  with assms show ?thesis by (simp add: generate_emails_def)
next
  case (Some c)
  show ?thesis
  proof (cases "load_templates (cmp_template c)")
    case None
    with Some assms show ?thesis by (simp add: generate_emails_def Let_def)
  next
    case (Some template)
    from generate_emails_eq [OF \<open>find (\<lambda>c. cmp_id c = campaign_id) (campaigns db) = Some c\<close> Some,
        of fs output_dir] assms
    have "results db' =
              map (\<lambda>r. if res_token r \<in> set (map (\<lambda>(email, ename, token). token)
                                                  (select_email_name_token db campaign_id))
                        then r\<lparr>res_email_sent := 1\<rparr> else r) (results db) \<and>
            fs' = fs @ map (\<lambda>(email, ename, token).
                  (email_filename output_dir email,
                   email_document template (cmp_name c) email token))
               (select_email_name_token db campaign_id)"
      by simp
    then show ?thesis by blast
  qed
qed

lemma example_reenrolled_db_value:
  "example_reenrolled_db =
      example_db
        \<lparr>employees := employees example_db @
           [\<lparr>emp_id = ''uuid-iiiiiiiii'', emp_email = ''dave@x.com'', emp_name = Some ''Dave'',
             emp_department = Some ''Ops'', emp_campaign_id = ''camp-1''\<rparr>],
         results := results example_db @
           [new_result ''uuid-iiiiiiiiiii'' ''uuid-iiiiiiiii'' ''camp-1'' ''uuid-iiiiiiiiii'',
            new_result ''uuid-iiiiiiiiiiiiii'' ''uuid-iiiiiiiiiiii'' ''camp-1'' ''uuid-iiiiiiiiiiiii'',
            new_result ''uuid-iiiiiiiiiiiiiiiii'' ''uuid-iiiiiiiiiiiiiii'' ''camp-1''
              ''uuid-iiiiiiiiiiiiiiii'']\<rparr>"
  unfolding example_reenrolled_db_def example_db_reenrolled by simp

lemma example_reenrolled_sent:
  "results (fst (snd (generate_emails example_reenrolled_db [] ''camp-1'' ''emails''))) =
     [(new_result ''uuid-ii'' ''uuid-'' ''camp-1'' ''uuid-i'')\<lparr>res_email_sent := 1\<rparr>,
      (new_result ''uuid-iiiii'' ''uuid-iii'' ''camp-1'' ''uuid-iiii'')\<lparr>res_email_sent := 1\<rparr>,
      (new_result ''uuid-iiiiiiii'' ''uuid-iiiiii'' ''camp-1'' ''uuid-iiiiiii'')\<lparr>res_email_sent := 1\<rparr>,
      (new_result ''uuid-iiiiiiiiiii'' ''uuid-iiiiiiiii'' ''camp-1'' ''uuid-iiiiiiiiii'')
         \<lparr>res_email_sent := 1\<rparr>,
      new_result ''uuid-iiiiiiiiiiiiii'' ''uuid-iiiiiiiiiiii'' ''camp-1'' ''uuid-iiiiiiiiiiiii'',
      new_result ''uuid-iiiiiiiiiiiiiiiii'' ''uuid-iiiiiiiiiiiiiii'' ''camp-1''
        ''uuid-iiiiiiiiiiiiiiii'']"
proof -
  let ?c = "\<lparr>cmp_id = ''camp-1'', cmp_name = ''Q1'', cmp_template = ''password_reset'',
           cmp_created = ''2024-01-01T00:00:00'', cmp_status = ''active''\<rparr>"
  let ?t = "\<lparr>tpl_name = ''password_reset'', tpl_subject = password_reset_subject,
           tpl_body = password_reset_body, tpl_sender = ''security@company.com'',
           tpl_difficulty = ''low''\<rparr>"
  have h1: "find (\<lambda>c. cmp_id c = ''camp-1'') (campaigns example_reenrolled_db) = Some ?c"
    by (simp add: example_reenrolled_db_value example_db_value)
  have h2: "load_templates (cmp_template ?c) = Some ?t"
    by (simp add: load_templates_def)
  have ts: "map (\<lambda>(email, ename, token). token)
              (select_email_name_token example_reenrolled_db ''camp-1'') =
            [''uuid-i'', ''uuid-iiii'', ''uuid-iiiiiii'', ''uuid-iiiiiiiiii'']"
    by (simp add: select_email_name_token_def join_employees_results_def
        example_reenrolled_db_value example_db_value new_result_def)
  show ?thesis
    unfolding generate_emails_eq [OF h1 h2] ts
    by (simp add: example_reenrolled_db_value example_db_value new_result_def)
qed

text \<open>
  Claim C10. \<open>generate_emails\<close> renders the rows of the join of employees and results
  only. Take a result row whose \<open>employee_id\<close> is the id of no employee of the campaign,
  such as the row a repeated enrolment of an address leaves behind, in a database whose
  tokens are unique: its token is not among those fetched, every document written
  belongs to a fetched row with another token, and the row itself is in the table
  afterwards exactly as it was, with \<open>email_sent\<close> still 0. In the scenario where three
  more records are enrolled, two of them repeated, rendering leaves \<open>emails_sent = 4\<close>
  against \<open>total_employees = 6\<close>.
\<close>

theorem generate_emails_skips_orphans:
  "(distinct (map res_token (results db)) \<and> r \<in> set (results db) \<and>
    (\<forall>e \<in> set (employees db).
       emp_campaign_id e = campaign_id \<longrightarrow> emp_id e \<noteq> res_employee_id r) \<and>
    generate_emails db fs campaign_id output_dir = (out, db', fs') \<longrightarrow>
      res_token r \<notin> set (map (\<lambda>(email, ename, token). token)
                               (select_email_name_token db campaign_id)) \<and>
      (\<forall>(path, doc) \<in> set (drop (length fs) fs').
         \<exists>email ename token (c :: campaign) (template :: EmailTemplate).
           (email, ename, token) \<in> set (select_email_name_token db campaign_id) \<and>
           token \<noteq> res_token r \<and>
           path = email_filename output_dir email \<and>
           doc = email_document template (cmp_name c) email token) \<and>
      r \<in> set (results db') \<and>
      (\<forall>r' \<in> set (results db'). res_token r' = res_token r \<longrightarrow> r' = r)) \<and>
   (\<exists>st. get_stats (fst (snd (generate_emails example_reenrolled_db [] ''camp-1'' ''emails'')))
            ''camp-1'' = Inr st \<and>
         emails_sent st = 4 \<and> total_employees st = 6)"
proof (intro conjI impI)
  assume a: "distinct (map res_token (results db)) \<and> r \<in> set (results db) \<and>
    (\<forall>e \<in> set (employees db).
       emp_campaign_id e = campaign_id \<longrightarrow> emp_id e \<noteq> res_employee_id r) \<and>
    generate_emails db fs campaign_id output_dir = (out, db', fs')"
  let ?T = "set (map (\<lambda>(email, ename, token). token) (select_email_name_token db campaign_id))"
  from a have d: "distinct (map res_token (results db))" and r: "r \<in> set (results db)"
    and g: "generate_emails db fs campaign_id output_dir = (out, db', fs')"
    by simp_all
  from a have nt: "res_token r \<notin> ?T"
    by (intro orphan_token_not_fetched) simp_all
  then show "res_token r \<notin> ?T" .
  have uniq: "r2 = r" if "r2 \<in> set (results db)" "res_token r2 = res_token r" for r2
    using d r that by (meson distinct_map inj_onD)
  from generate_emails_written [OF g]
  consider (err) "db' = db" "fs' = fs"
    | (ok) c :: campaign and template :: EmailTemplate where
        "results db' = map (\<lambda>r. if res_token r \<in> ?T then r\<lparr>res_email_sent := 1\<rparr> else r) (results db)"
        "fs' = fs @ map (\<lambda>(email, ename, token).
                  (email_filename output_dir email,
                   email_document template (cmp_name c) email token))
               (select_email_name_token db campaign_id)"
    by blast
  then have "(\<forall>(path, doc) \<in> set (drop (length fs) fs').
         \<exists>email ename token (c :: campaign) (template :: EmailTemplate).
           (email, ename, token) \<in> set (select_email_name_token db campaign_id) \<and>
           token \<noteq> res_token r \<and>
           path = email_filename output_dir email \<and>
           doc = email_document template (cmp_name c) email token) \<and>
      r \<in> set (results db') \<and>
      (\<forall>r' \<in> set (results db'). res_token r' = res_token r \<longrightarrow> r' = r)"
  proof cases
    case err
    then show ?thesis using r uniq by auto
  next
    case ok
    define T where "T = ?T"
    have res': "results db' = map (\<lambda>r. if res_token r \<in> T then r\<lparr>res_email_sent := 1\<rparr> else r) (results db)"
      using ok(1) by (simp add: T_def)
    have nt': "res_token r \<notin> T" using nt by (simp add: T_def)
    have 1: "r \<in> set (results db')"
      unfolding res' using in_set_mapI [OF r, of "\<lambda>r. if res_token r \<in> T then r\<lparr>res_email_sent := 1\<rparr> else r"] nt'
      by simp
    have 2: "\<forall>r' \<in> set (results db'). res_token r' = res_token r \<longrightarrow> r' = r"
    proof (intro ballI impI)
      fix r' assume "r' \<in> set (results db')" "res_token r' = res_token r"
      then obtain r0 where r0: "r0 \<in> set (results db)"
        "r' = (if res_token r0 \<in> T then r0\<lparr>res_email_sent := 1\<rparr> else r0)"
        unfolding res' by auto
      with \<open>res_token r' = res_token r\<close> have "res_token r0 = res_token r"
        by (auto split: if_splits)
      with uniq r0(1) have "r0 = r" by blast
      with r0(2) nt' show "r' = r" by simp
    qed
    have 3: "\<forall>(path, doc) \<in> set (drop (length fs) fs').
         \<exists>email ename token (c :: campaign) (template :: EmailTemplate).
           (email, ename, token) \<in> set (select_email_name_token db campaign_id) \<and>
           token \<noteq> res_token r \<and>
           path = email_filename output_dir email \<and>
           doc = email_document template (cmp_name c) email token"
    proof (intro ballI, clarify)
      fix path doc assume "(path, doc) \<in> set (drop (length fs) fs')"
      then have "(path, doc) \<in> (\<lambda>(email, ename, token).
                  (email_filename output_dir email,
                   email_document template (cmp_name c) email token)) `
               set (select_email_name_token db campaign_id)"
        unfolding ok(2) by simp
      then obtain x where x: "x \<in> set (select_email_name_token db campaign_id)"
        and px: "(path, doc) = (case x of (email, ename, token) \<Rightarrow>
                  (email_filename output_dir email,
                   email_document template (cmp_name c) email token))"
        by (rule imageE)
      obtain email ename token where xe: "x = (email, ename, token)" by (cases x)
      from x xe have t: "(email, ename, token) \<in> set (select_email_name_token db campaign_id)"
        by simp
      from px xe have p: "path = email_filename output_dir email"
        "doc = email_document template (cmp_name c) email token"
        by simp_all
      from in_set_mapI [OF t, of "\<lambda>(email, ename, token). token"]
      have "token \<in> ?T" by (simp only: prod.case)
      with nt have "token \<noteq> res_token r" by blast
      with t p show "\<exists>email ename token (c :: campaign) (template :: EmailTemplate).
           (email, ename, token) \<in> set (select_email_name_token db campaign_id) \<and>
           token \<noteq> res_token r \<and>
           path = email_filename output_dir email \<and>
           doc = email_document template (cmp_name c) email token"
        by blast
    qed
    from 1 2 3 show ?thesis by blast
  qed
  then show "\<forall>(path, doc) \<in> set (drop (length fs) fs').
         \<exists>email ename token (c :: campaign) (template :: EmailTemplate).
           (email, ename, token) \<in> set (select_email_name_token db campaign_id) \<and>
           token \<noteq> res_token r \<and>
           path = email_filename output_dir email \<and>
           doc = email_document template (cmp_name c) email token"
    and "r \<in> set (results db')"
    and "\<forall>r' \<in> set (results db'). res_token r' = res_token r \<longrightarrow> r' = r"
    by blast+
next
  let ?db = "fst (snd (generate_emails example_reenrolled_db [] ''camp-1'' ''emails''))"
  from get_stats_fields [of ?db "''camp-1''"] obtain st where
    st: "get_stats ?db ''camp-1'' = Inr st"
    and t: "total_employees st = int (length (filter (\<lambda>r. res_campaign_id r = ''camp-1'') (results ?db)))"
    and e: "emails_sent st = sum_list (map res_email_sent (filter (\<lambda>r. res_campaign_id r = ''camp-1'') (results ?db)))"
    by force
  have "total_employees st = 6"
    unfolding t example_reenrolled_sent by (simp add: new_result_def)
  moreover have "emails_sent st = 4"
    unfolding e example_reenrolled_sent by (simp add: new_result_def)
  ultimately show "\<exists>st. get_stats ?db ''camp-1'' = Inr st \<and> emails_sent st = 4 \<and> total_employees st = 6"
    using st by blast
qed


theorem generate_emails_skips_orphans_witness:
  "distinct (map res_token (results example_reenrolled_db)) \<and>
   new_result ''uuid-iiiiiiiiiiiiii'' ''uuid-iiiiiiiiiiii'' ''camp-1'' ''uuid-iiiiiiiiiiiii''
     \<in> set (results example_reenrolled_db) \<and>
   list_all
     (\<lambda>e. emp_id e \<noteq> res_employee_id
        (new_result ''uuid-iiiiiiiiiiiiii'' ''uuid-iiiiiiiiiiii'' ''camp-1'' ''uuid-iiiiiiiiiiiii''))
     (filter (\<lambda>e. emp_campaign_id e = ''camp-1'') (employees example_reenrolled_db)) \<and>
   new_result ''uuid-iiiiiiiiiiiiii'' ''uuid-iiiiiiiiiiii'' ''camp-1'' ''uuid-iiiiiiiiiiiii''
     \<in> set (results (fst (snd (generate_emails example_reenrolled_db [] ''camp-1'' ''emails'')))) \<and>
   res_email_sent
     (new_result ''uuid-iiiiiiiiiiiiii'' ''uuid-iiiiiiiiiiii'' ''camp-1'' ''uuid-iiiiiiiiiiiii'') = 0"
proof -
  let ?r = "new_result ''uuid-iiiiiiiiiiiiii'' ''uuid-iiiiiiiiiiii'' ''camp-1'' ''uuid-iiiiiiiiiiiii''"
  let ?g = "generate_emails example_reenrolled_db [] ''camp-1'' ''emails''"
  have h1: "distinct (map res_token (results example_reenrolled_db))"
    by (simp add: example_reenrolled_db_value example_db_value new_result_def)
  have h2: "?r \<in> set (results example_reenrolled_db)"
    by (simp add: example_reenrolled_db_value example_db_value)
  have h3: "\<forall>e \<in> set (employees example_reenrolled_db).
      emp_campaign_id e = ''camp-1'' \<longrightarrow> emp_id e \<noteq> res_employee_id ?r"
    by (simp add: example_reenrolled_db_value example_db_value new_result_def)
  have h4: "?g = (fst ?g, fst (snd ?g), snd (snd ?g))"
    by simp
  from generate_emails_skips_orphans
    [of example_reenrolled_db ?r "''camp-1''" "[]" "''emails''" "fst ?g" "fst (snd ?g)" "snd (snd ?g)"]
  have "distinct (map res_token (results example_reenrolled_db)) \<and>
      ?r \<in> set (results example_reenrolled_db) \<and>
      (\<forall>e \<in> set (employees example_reenrolled_db).
         emp_campaign_id e = ''camp-1'' \<longrightarrow> emp_id e \<noteq> res_employee_id ?r) \<and>
      ?g = (fst ?g, fst (snd ?g), snd (snd ?g)) \<longrightarrow>
      ?r \<in> set (results (fst (snd ?g)))"
    by blast
  with h1 h2 h3 h4 have c: "?r \<in> set (results (fst (snd ?g)))"
    by blast
  have z: "res_email_sent ?r = 0" by (simp add: new_result_def)
  from h3 have h3': "list_all (\<lambda>e. emp_id e \<noteq> res_employee_id ?r)
      (filter (\<lambda>e. emp_campaign_id e = ''camp-1'') (employees example_reenrolled_db))"
    by (simp add: list_all_iff)
  from h1 h2 h3' c z show ?thesis by (intro conjI)
qed

subsection \<open>The department breakdown of get_stats\<close>

lemma filter_join:
  "filter (\<lambda>(e, r). Q e) (concat (map (\<lambda>e. map (Pair e) (g e)) xs)) =
     concat (map (\<lambda>e. map (Pair e) (g e)) (filter Q xs))"
  by (induction xs) (auto simp: filter_map comp_def)

lemma length_join:
  "length (concat (map (\<lambda>e. map (Pair e) (g e)) xs)) = sum_list (map (\<lambda>e. length (g e)) xs)"
  by (induction xs) auto

lemma sum_join:
  "sum_list (map (\<lambda>(e, r). h r) (concat (map (\<lambda>e. map (Pair e) (g e)) xs))) =
     sum_list (map (\<lambda>e. sum_list (map h (g e))) xs)"
  by (induction xs) (auto simp: comp_def)

lemma keys_join:
  "set (map (\<lambda>(e, r). k e) (concat (map (\<lambda>e. map (Pair e) (g e)) xs))) =
     k ` {e \<in> set xs. g e \<noteq> []}"
  by (induction xs) (auto simp: image_iff)

lemma sum_list_const_one:
  "(\<And>x. x \<in> set xs \<Longrightarrow> f x = (1::nat)) \<Longrightarrow> sum_list (map f xs) = length xs"
  by (induction xs) auto

lemma or0_sql_sum: "or0 (sql_sum xs) = sum_list xs"
  by (simp add: or0_def sql_sum_def)

lemma department_stats_eq:
  assumes "get_stats db campaign_id = Inr st"
  shows "department_stats st =
     map (\<lambda>dept.
            let emps = filter (\<lambda>e. emp_department e = dept)
                         (filter (\<lambda>e. emp_campaign_id e = campaign_id) (employees db))
            in \<lparr>ds_department = dept,
                ds_total = int (sum_list (map (\<lambda>e. length (filter (\<lambda>r. emp_id e = res_employee_id r) (results db))) emps)),
                ds_clicked = sum_list (map (\<lambda>e. sum_list (map res_link_clicked
                               (filter (\<lambda>r. emp_id e = res_employee_id r) (results db)))) emps),
                ds_reported = sum_list (map (\<lambda>e. sum_list (map res_phishing_reported
                               (filter (\<lambda>r. emp_id e = res_employee_id r) (results db)))) emps)\<rparr>)
         (remdups (map (\<lambda>(e, r). emp_department e) (join_employees_results db campaign_id)))"
proof -
  from get_stats_fields [of db campaign_id] assms
  have "department_stats st =
      map (\<lambda>(dept, dept_total, dept_clicked, dept_reported).
                     \<lparr>ds_department = dept, ds_total = dept_total,
                      ds_clicked = or0 dept_clicked, ds_reported = or0 dept_reported\<rparr>)
                  (select_department_stats db campaign_id)"
    by auto
  then show ?thesis
    by (simp add: select_department_stats_def Let_def comp_def or0_sql_sum
        join_employees_results_def filter_join length_join sum_join)
qed


text \<open>
  Claim C8. In a database where every employee row is carried by exactly one result row
  (the state every operation of the program keeps, given fresh identifiers: see
  \<open>one_result_per_employee_preserved\<close> below), the department breakdown of \<open>get_stats\<close>
  has exactly one entry for each department among the employees of the campaign; its
  \<open>total\<close> is the number of those employees in the department, and its \<open>clicked\<close> and
  \<open>reported\<close> are the sums of \<open>link_clicked\<close> and \<open>phishing_reported\<close> over the result
  rows of those employees.
\<close>

theorem department_stats_spec:
  assumes "one_result_per_employee db" and "get_stats db campaign_id = Inr st"
  shows "distinct (map ds_department (department_stats st)) \<and>
         set (map ds_department (department_stats st)) =
           emp_department ` {e \<in> set (employees db). emp_campaign_id e = campaign_id} \<and>
         (\<forall>d \<in> set (department_stats st).
            ds_total d =
              int (length (filter (\<lambda>e. emp_department e = ds_department d)
                             (filter (\<lambda>e. emp_campaign_id e = campaign_id) (employees db)))) \<and>
            ds_clicked d =
              sum_list (map (\<lambda>e. sum_list (map res_link_clicked
                                     (filter (\<lambda>r. emp_id e = res_employee_id r) (results db))))
                          (filter (\<lambda>e. emp_department e = ds_department d)
                             (filter (\<lambda>e. emp_campaign_id e = campaign_id) (employees db)))) \<and>
            ds_reported d =
              sum_list (map (\<lambda>e. sum_list (map res_phishing_reported
                                     (filter (\<lambda>r. emp_id e = res_employee_id r) (results db))))
                          (filter (\<lambda>e. emp_department e = ds_department d)
                             (filter (\<lambda>e. emp_campaign_id e = campaign_id) (employees db)))))"
proof -
  let ?g = "\<lambda>e. filter (\<lambda>r. emp_id e = res_employee_id r) (results db)"
  let ?E = "filter (\<lambda>e. emp_campaign_id e = campaign_id) (employees db)"
  let ?depts = "remdups (map (\<lambda>(e, r). emp_department e) (join_employees_results db campaign_id))"
  from assms(1) have one: "length (?g e) = 1" if "e \<in> set (employees db)" for e
    using that by (simp add: one_result_per_employee_def list_all_iff)
  note ds = department_stats_eq [OF assms(2)]
  have keys: "map ds_department (department_stats st) = ?depts"
    unfolding ds by (simp add: comp_def Let_def)
  have a: "distinct (map ds_department (department_stats st))"
    unfolding keys by simp
  have "{e \<in> set ?E. ?g e \<noteq> []} = set ?E"
    using one by force
  moreover have "set ?depts = emp_department ` {e \<in> set ?E. ?g e \<noteq> []}"
    unfolding join_employees_results_def set_remdups by (rule keys_join)
  ultimately have "set ?depts = emp_department ` set ?E"
    by simp
  then have b: "set (map ds_department (department_stats st)) =
           emp_department ` {e \<in> set (employees db). emp_campaign_id e = campaign_id}"
    unfolding keys by simp
  have tot: "sum_list (map (\<lambda>e. length (?g e)) (filter (\<lambda>e. emp_department e = dept) ?E)) =
      length (filter (\<lambda>e. emp_department e = dept) ?E)" for dept
    by (rule sum_list_const_one) (use one in auto)
  have c: "ds_total d = int (length (filter (\<lambda>e. emp_department e = ds_department d) ?E)) \<and>
      ds_clicked d =
        sum_list (map (\<lambda>e. sum_list (map res_link_clicked (?g e)))
                    (filter (\<lambda>e. emp_department e = ds_department d) ?E)) \<and>
      ds_reported d =
        sum_list (map (\<lambda>e. sum_list (map res_phishing_reported (?g e)))
                    (filter (\<lambda>e. emp_department e = ds_department d) ?E))"
    if "d \<in> set (department_stats st)" for d
  proof -
    from that obtain dept where "d = (let emps = filter (\<lambda>e. emp_department e = dept) ?E
            in \<lparr>ds_department = dept,
                ds_total = int (sum_list (map (\<lambda>e. length (?g e)) emps)),
                ds_clicked = sum_list (map (\<lambda>e. sum_list (map res_link_clicked (?g e))) emps),
                ds_reported = sum_list (map (\<lambda>e. sum_list (map res_phishing_reported (?g e))) emps)\<rparr>)"
      unfolding ds by (auto simp del: set_remdups)
    then show ?thesis by (simp add: Let_def tot del: filter_filter)
  qed
  from a b c show ?thesis by blast
qed

lemma one_result_per_employee_results:
  assumes "one_result_per_employee db" "employees db' = employees db"
    "map res_employee_id (results db') = map res_employee_id (results db)"
  shows "one_result_per_employee db'"
proof -
  have k: "length (filter (\<lambda>r. x = res_employee_id r) rs) =
      length (filter (\<lambda>i. x = i) (map res_employee_id rs))"
    for x and rs :: "result list"
    by (induction rs) auto
  have "length (filter (\<lambda>r. x = res_employee_id r) (results db')) =
      length (filter (\<lambda>r. x = res_employee_id r) (results db))" for x
    unfolding k assms(3) ..
  then show ?thesis
    using assms(1) by (simp only: one_result_per_employee_def assms(2))
qed

lemma one_result_per_employee_preserved:
  "one_result_per_employee empty_database"
  "one_result_per_employee db \<Longrightarrow> one_result_per_employee (snd (create_campaign db cname template uuid now))"
  "one_result_per_employee db \<Longrightarrow> fresh_uuids uuid4 (3 * length reader) db \<Longrightarrow>
     one_result_per_employee (snd (add_employees db campaign_id (Some reader) uuid4))"
  "one_result_per_employee db \<Longrightarrow> one_result_per_employee (fst (snd (generate_emails db fs campaign_id output_dir)))"
  "one_result_per_employee db \<Longrightarrow> one_result_per_employee (snd (simulate_click db token now))"
  "one_result_per_employee db \<Longrightarrow> one_result_per_employee (snd (report_phishing db email campaign_id now))"
proof -
  show "one_result_per_employee empty_database"
    by (simp add: one_result_per_employee_def empty_database_def)
next
  assume "one_result_per_employee db"
  then show "one_result_per_employee (snd (create_campaign db cname template uuid now))"
    by (auto simp: create_campaign_def insert_campaign_def one_result_per_employee_def Let_def
        split: sum.splits)
next
  assume inv: "one_result_per_employee db" and fr: "fresh_uuids uuid4 (3 * length reader) db"
  show "one_result_per_employee (snd (add_employees db campaign_id (Some reader) uuid4))"
  proof (cases "load_employees (Some reader)")
    case (Inl e)
    then show ?thesis using inv by (simp add: add_employees_def)
  next
    case (Inr emps)
    then have v: "list_all (\<lambda>row. valid_row row) reader" and e: "emps = reader"
      by (auto simp: load_employees_Some split: if_splits)
    from add_rows_fresh [OF v fr, of campaign_id] obtain db' where
      a: "add_rows campaign_id uuid4 reader db = Inr db'" by blast
    from add_rows_fresh_employees [OF v fr a] inv have "one_result_per_employee db'" by blast
    then show ?thesis using Inr a e by (simp add: add_employees_def)
  qed
next
  assume inv: "one_result_per_employee db"
  obtain out db' fs' where g: "generate_emails db fs campaign_id output_dir = (out, db', fs')"
    by (cases "generate_emails db fs campaign_id output_dir")
  have "one_result_per_employee db'"
  proof (cases "find (\<lambda>c. cmp_id c = campaign_id) (campaigns db)")
    case None
    with g inv show ?thesis by (auto simp: generate_emails_def)
  next
    case (Some c)
    show ?thesis
    proof (cases "load_templates (cmp_template c)")
      case None
      with Some g inv show ?thesis by (auto simp: generate_emails_def Let_def)
    next
      case (Some template)
      from generate_emails_eq [OF \<open>find (\<lambda>c. cmp_id c = campaign_id) (campaigns db) = Some c\<close> Some,
          of fs output_dir] g
      have "employees db' = employees db"
        "map res_employee_id (results db') = map res_employee_id (results db)"
        by (auto simp: comp_def if_distrib cong: if_cong)
      with inv show ?thesis by (rule one_result_per_employee_results)
    qed
  qed
  with g show "one_result_per_employee (fst (snd (generate_emails db fs campaign_id output_dir)))"
    by simp
next
  assume inv: "one_result_per_employee db"
  show "one_result_per_employee (snd (simulate_click db token now))"
    by (rule one_result_per_employee_results [OF inv])
      (simp_all add: simulate_click_def Let_def comp_def if_distrib cong: if_cong)
next
  assume inv: "one_result_per_employee db"
  show "one_result_per_employee (snd (report_phishing db email campaign_id now))"
    by (rule one_result_per_employee_results [OF inv])
      (simp_all add: report_phishing_def Let_def comp_def if_distrib cong: if_cong)
qed


lemma example_scenario_db_value:
  "example_scenario_db =
     example_db\<lparr>results :=
       [(new_result ''uuid-ii'' ''uuid-'' ''camp-1'' ''uuid-i'')
          \<lparr>res_email_sent := 1, res_link_clicked := 1,
           res_clicked_at := Some ''2024-01-02T09:00:00''\<rparr>,
        (new_result ''uuid-iiiii'' ''uuid-iii'' ''camp-1'' ''uuid-iiii'')
          \<lparr>res_email_sent := 1, res_phishing_reported := 1,
           res_reported_at := Some ''2024-01-02T10:00:00''\<rparr>,
        (new_result ''uuid-iiiiiiii'' ''uuid-iiiiii'' ''camp-1'' ''uuid-iiiiiii'')
          \<lparr>res_email_sent := 1\<rparr>]\<rparr>"
proof -
  let ?c = "\<lparr>cmp_id = ''camp-1'', cmp_name = ''Q1'', cmp_template = ''password_reset'',
           cmp_created = ''2024-01-01T00:00:00'', cmp_status = ''active''\<rparr>"
  let ?t = "\<lparr>tpl_name = ''password_reset'', tpl_subject = password_reset_subject,
           tpl_body = password_reset_body, tpl_sender = ''security@company.com'',
           tpl_difficulty = ''low''\<rparr>"
  have h1: "find (\<lambda>c. cmp_id c = ''camp-1'') (campaigns example_db) = Some ?c"
    by (simp add: example_db_value)
  have h2: "load_templates (cmp_template ?c) = Some ?t"
    by (simp add: load_templates_def)
  show ?thesis
    unfolding example_scenario_db_def generate_emails_eq [OF h1 h2] example_triples
    by (simp add: simulate_click_def report_phishing_def example_db_value new_result_def Let_def)
qed

theorem department_stats_spec_witness:
  "one_result_per_employee example_scenario_db \<and>
   (\<exists>st. get_stats example_scenario_db ''camp-1'' = Inr st \<and>
      distinct (map ds_department (department_stats st)) \<and>
      set (map ds_department (department_stats st)) = {Some ''Eng'', Some ''Sales''} \<and>
      list_all (\<lambda>d. ds_total d = 2 \<and> ds_clicked d = 1 \<and> ds_reported d = 1)
        (filter (\<lambda>d. ds_department d = Some ''Eng'') (department_stats st)) \<and>
      list_all (\<lambda>d. ds_total d = 1 \<and> ds_clicked d = 0 \<and> ds_reported d = 0)
        (filter (\<lambda>d. ds_department d = Some ''Sales'') (department_stats st)))"
proof -
  have inv: "one_result_per_employee example_scenario_db"
    by (simp add: one_result_per_employee_def example_scenario_db_value example_db_value
        new_result_def)
  from get_stats_fields [of example_scenario_db "''camp-1''"] obtain st where
    st: "get_stats example_scenario_db ''camp-1'' = Inr st" by blast
  note th = department_stats_spec [OF inv st]
  from th have a: "distinct (map ds_department (department_stats st))"
    by (rule conjunct1)
  from th have "set (map ds_department (department_stats st)) =
      emp_department ` {e \<in> set (employees example_scenario_db). emp_campaign_id e = ''camp-1''}"
    by (rule conjunct1 [OF conjunct2])
  also have "\<dots> = emp_department `
      set (filter (\<lambda>e. emp_campaign_id e = ''camp-1'') (employees example_scenario_db))"
    by simp
  also have "\<dots> = {Some ''Eng'', Some ''Sales''}"
    by (simp add: example_scenario_db_value example_db_value del: set_filter)
  finally have b: "set (map ds_department (department_stats st)) = {Some ''Eng'', Some ''Sales''}" .
  have c: "(ds_department d = Some ''Eng'' \<longrightarrow> ds_total d = 2 \<and> ds_clicked d = 1 \<and> ds_reported d = 1) \<and>
         (ds_department d = Some ''Sales'' \<longrightarrow> ds_total d = 1 \<and> ds_clicked d = 0 \<and> ds_reported d = 0)"
    if d: "d \<in> set (department_stats st)" for d
  proof -
    from th d have
      "ds_total d =
              int (length (filter (\<lambda>e. emp_department e = ds_department d)
                             (filter (\<lambda>e. emp_campaign_id e = ''camp-1'') (employees example_scenario_db)))) \<and>
            ds_clicked d =
              sum_list (map (\<lambda>e. sum_list (map res_link_clicked
                                     (filter (\<lambda>r. emp_id e = res_employee_id r) (results example_scenario_db))))
                          (filter (\<lambda>e. emp_department e = ds_department d)
                             (filter (\<lambda>e. emp_campaign_id e = ''camp-1'') (employees example_scenario_db)))) \<and>
            ds_reported d =
              sum_list (map (\<lambda>e. sum_list (map res_phishing_reported
                                     (filter (\<lambda>r. emp_id e = res_employee_id r) (results example_scenario_db))))
                          (filter (\<lambda>e. emp_department e = ds_department d)
                             (filter (\<lambda>e. emp_campaign_id e = ''camp-1'') (employees example_scenario_db))))"
      by blast
    then show ?thesis
      by (auto simp: example_scenario_db_value example_db_value new_result_def)
  qed
  from c have c1: "list_all (\<lambda>d. ds_total d = 2 \<and> ds_clicked d = 1 \<and> ds_reported d = 1)
        (filter (\<lambda>d. ds_department d = Some ''Eng'') (department_stats st))"
    and c2: "list_all (\<lambda>d. ds_total d = 1 \<and> ds_clicked d = 0 \<and> ds_reported d = 0)
        (filter (\<lambda>d. ds_department d = Some ''Sales'') (department_stats st))"
    by (simp_all add: list_all_iff)
  from inv st a b c1 c2 show ?thesis by blast
qed

subsection \<open>The rates of get_stats\<close>












end
